theory Spec2Isabelle
  imports Main
begin

section \<open>Text\<close>

text \<open>
  JavaScript strings are modelled as \<open>string\<close>, one \<open>char\<close> per code unit. Every
  character of the messages of this backend lies in Latin-1, so the accented letters
  are written by their code: \<open>CHR 0xE1\<close> (a acute), \<open>CHR 0xE9\<close> (e acute),
  \<open>CHR 0xF3\<close> (o acute), \<open>CHR 0xA1\<close> (inverted exclamation mark) and
  \<open>CHR 0x22\<close> (the double quote).
\<close>

abbreviation a_acute :: string where "a_acute \<equiv> [CHR 0xE1]"
abbreviation e_acute :: string where "e_acute \<equiv> [CHR 0xE9]"
abbreviation o_acute :: string where "o_acute \<equiv> [CHR 0xF3]"
abbreviation inverted_exclamation :: string where "inverted_exclamation \<equiv> [CHR 0xA1]"
abbreviation double_quote :: string where "double_quote \<equiv> [CHR 0x22]"

section \<open>The relational store\<close>

text \<open>
  Each table is the list of its rows, with the columns the application routes read or
  write. Timestamps (\<open>created_at\<close>, \<open>updated_at\<close>) are left out. A query is a
  filter over these lists; a join is a comprehension. No key is assumed unique.
\<close>

record user_row =
  u_id :: nat
  u_full_name :: string
  u_email :: string

record technician_profile_row =
  tp_user_id :: nat
  tp_cv_uploaded :: bool
  tp_cv_file :: "string option"

record company_profile_row =
  cp_user_id :: nat
  cp_company_name :: string

record project_row =
  p_id :: nat
  p_title :: string
  p_company_id :: nat
  p_status :: string

record application_row =
  pa_id :: nat
  pa_project_id :: nat
  pa_technician_id :: nat
  pa_cover_letter :: string
  pa_proposed_rate :: "int option"
  pa_availability_start :: "string option"
  pa_availability_end :: "string option"
  pa_status :: string

record notification_row =
  n_id :: nat
  n_user_id :: nat
  n_type :: string
  n_title :: string
  n_message :: string
  n_related_id :: "nat option"
  n_is_read :: bool

section \<open>Outbound mail\<close>

text \<open>
  The HTML body of a message is a fixed template around a few interpolated values; it
  is kept as the template's name with those values. \<open>NewApplicationHtml\<close> holds
  project title, company name, technician name, technician email, the proposed rate when
  it is shown, and the cover letter; \<open>ConfirmationHtml\<close> holds technician name and
  project title.
\<close>

datatype mail_html =
    NewApplicationHtml string string string string "int option" string
  | ConfirmationHtml string string

record attachment =
  att_filename :: string
  att_path :: string

record mail =
  mail_from :: "string option"
  mail_to :: string
  mail_subject :: string
  mail_body :: mail_html
  mail_attachments :: "attachment list"

section \<open>State and environment\<close>

text \<open>
  \<open>world\<close> is everything a request can change: the tables, the two AUTO_INCREMENT
  counters, and \<open>transport_calls\<close>, the messages handed to
  \<open>transporter.sendMail\<close> in order (one entry per contact with the mail transport,
  whatever its outcome).
\<close>

record world =
  users :: "user_row list"
  technician_profiles :: "technician_profile_row list"
  company_profiles :: "company_profile_row list"
  projects :: "project_row list"
  project_applications :: "application_row list"
  notifications :: "notification_row list"
  next_application_id :: nat
  next_notification_id :: nat
  transport_calls :: "mail list"

text \<open>
  \<open>services\<close> is what the code does not decide: the process environment read at
  startup, the outcome of the mail transport on a message (\<open>Inl\<close> the error's
  message, \<open>Inr\<close> the provider's message id), whether the storage rejects the
  INSERT of a notification row (\<open>Some\<close> the error's message), and Node's
  \<open>path.join\<close>.
\<close>

record services =
  process_env :: "string \<Rightarrow> string option"
  transporter_sendMail :: "mail \<Rightarrow> string + string"
  notification_insert_error :: "notification_row \<Rightarrow> string option"
  path_join :: "string \<Rightarrow> string \<Rightarrow> string"

text \<open>\<open>req.user\<close>, as the authentication middleware attaches it.\<close>

record requester =
  userId :: nat
  userType :: string

section \<open>config/email: validateEmailConfig\<close>

text \<open>\<open>!process.env[field]\<close>: the variable is unset or the empty string.\<close>

definition env_missing :: "(string \<Rightarrow> string option) \<Rightarrow> string \<Rightarrow> bool" where
  "env_missing env field = (case env field of None \<Rightarrow> True | Some v \<Rightarrow> v = [])"

definition validateEmailConfig :: "(string \<Rightarrow> string option) \<Rightarrow> bool" where
  "validateEmailConfig env =
     (let requiredFields = [''EMAIL_USER'', ''EMAIL_PASS''];
          missingFields = filter (env_missing env) requiredFields
      in if length missingFields > 0 then False else True)"

text \<open>\<open>a || b\<close> on two environment variables.\<close>

definition env_or :: "(string \<Rightarrow> string option) \<Rightarrow> string \<Rightarrow> string \<Rightarrow> string option" where
  "env_or env a b = (if env_missing env a then env b else env a)"

section \<open>services/emailService\<close>

definition isEmailConfigured :: "services \<Rightarrow> bool" where
  "isEmailConfigured svc = validateEmailConfig (process_env svc)"

datatype send_result = SendSuccess string | SendFailure string

text \<open>\<open>technicianName.replace(/\s+/g, '_')\<close>: every maximal run of white space becomes one underscore.\<close>

definition is_space :: "char \<Rightarrow> bool" where
  "is_space c = (c \<in> set [CHR 0x09, CHR 0x0A, CHR 0x0B, CHR 0x0C, CHR 0x0D, CHR 0x20, CHR 0xA0])"

function replace_spaces :: "string \<Rightarrow> string" where
  "replace_spaces [] = []"
| "replace_spaces (c # cs) =
     (if is_space c then CHR ''_'' # replace_spaces (dropWhile is_space cs)
      else c # replace_spaces cs)"
  by pat_completeness auto
termination
  by (relation "measure length") (auto simp: length_dropWhile_le less_Suc_eq_le)

record applicationData =
  technicianName :: string
  technicianEmail :: string
  projectTitle :: string
  companyName :: string
  coverLetter :: string
  proposedRate :: "int option"
  cvFilePath :: "string option"

text \<open>
  \<open>proposedRate ? ... : ''\<close>: an absent rate and the rate 0 are both left out of
  the body. \<open>cvFilePath ? [...] : []\<close>: an absent path and the empty path give no
  attachment.
\<close>

definition shown_rate :: "int option \<Rightarrow> int option" where
  "shown_rate r = (case r of None \<Rightarrow> None | Some v \<Rightarrow> if v = 0 then None else Some v)"

definition job_application_mail :: "services \<Rightarrow> applicationData \<Rightarrow> mail" where
  "job_application_mail svc d =
     \<lparr> mail_from = env_or (process_env svc) ''EMAIL_FROM'' ''EMAIL_USER'',
       mail_to = ''hola.trabajatecnico@gmail.com'',
       mail_subject = ''Nueva Aplicaci'' @ o_acute @ ''n de Trabajo - '' @ projectTitle d,
       mail_body = NewApplicationHtml (projectTitle d) (companyName d) (technicianName d)
                     (technicianEmail d) (shown_rate (proposedRate d)) (coverLetter d),
       mail_attachments =
         (case cvFilePath d of
            None \<Rightarrow> []
          | Some p \<Rightarrow>
              if p = [] then []
              else [\<lparr> att_filename = ''CV_'' @ replace_spaces (technicianName d) @ ''.pdf'',
                      att_path = p \<rparr>]) \<rparr>"

definition sendJobApplicationEmail ::
    "services \<Rightarrow> applicationData \<Rightarrow> world \<Rightarrow> send_result \<times> world" where
  "sendJobApplicationEmail svc d w =
     (if \<not> isEmailConfigured svc then (SendFailure ''Email no configurado'', w)
      else
        let mailOptions = job_application_mail svc d;
            w' = w\<lparr>transport_calls := transport_calls w @ [mailOptions]\<rparr>
        in case transporter_sendMail svc mailOptions of
             Inr messageId \<Rightarrow> (SendSuccess messageId, w')
           | Inl err \<Rightarrow> (SendFailure err, w'))"

definition confirmation_mail :: "services \<Rightarrow> string \<Rightarrow> string \<Rightarrow> string \<Rightarrow> mail" where
  "confirmation_mail svc email name title =
     \<lparr> mail_from = env_or (process_env svc) ''EMAIL_FROM'' ''EMAIL_USER'',
       mail_to = email,
       mail_subject = ''Confirmaci'' @ o_acute @ ''n de Aplicaci'' @ o_acute @ ''n - '' @ title,
       mail_body = ConfirmationHtml name title,
       mail_attachments = [] \<rparr>"

definition sendApplicationConfirmationEmail ::
    "services \<Rightarrow> string \<Rightarrow> string \<Rightarrow> string \<Rightarrow> world \<Rightarrow> send_result \<times> world" where
  "sendApplicationConfirmationEmail svc email name title w =
     (if \<not> isEmailConfigured svc then (SendFailure ''Email no configurado'', w)
      else
        let mailOptions = confirmation_mail svc email name title;
            w' = w\<lparr>transport_calls := transport_calls w @ [mailOptions]\<rparr>
        in case transporter_sendMail svc mailOptions of
             Inr messageId \<Rightarrow> (SendSuccess messageId, w')
           | Inl err \<Rightarrow> (SendFailure err, w'))"

section \<open>services/notificationService\<close>

datatype notification_result = NotificationCreated nat | NotificationFailed string

text \<open>
  \<open>createNotification\<close> inserts one row and returns its id; an error of the INSERT
  is caught inside the function and returned as \<open>{success: false, error}\<close>.

  Modelled from the spec: the schema of the notifications table is not among the sources.
  The INSERT names neither id nor \<open>is_read\<close>; the id is the table's next
  AUTO_INCREMENT value (the driver's \<open>insertId\<close>) and \<open>is_read\<close> takes
  its default, false (data model: "is_read (boolean, default false)").
\<close>

definition createNotification ::
    "services \<Rightarrow> nat \<Rightarrow> string \<Rightarrow> string \<Rightarrow> string \<Rightarrow> nat option \<Rightarrow> world
      \<Rightarrow> notification_result \<times> world" where
  "createNotification svc uid ntype title message relatedId w =
     (let row = \<lparr> n_id = next_notification_id w, n_user_id = uid, n_type = ntype,
                   n_title = title, n_message = message, n_related_id = relatedId,
                   n_is_read = False \<rparr>
      in case notification_insert_error svc row of
           None \<Rightarrow>
             (NotificationCreated (n_id row),
              w\<lparr>notifications := notifications w @ [row],
                next_notification_id := Suc (next_notification_id w)\<rparr>)
         | Some err \<Rightarrow> (NotificationFailed err, w))"

definition createJobApplicationNotification ::
    "services \<Rightarrow> nat \<Rightarrow> nat \<Rightarrow> string \<Rightarrow> world \<Rightarrow> notification_result \<times> world" where
  "createJobApplicationNotification svc technicianId pid title w =
     createNotification svc technicianId ''job_application''
       (''Aplicaci'' @ o_acute @ ''n Enviada'')
       (''Tu aplicaci'' @ o_acute @ ''n para el proyecto '' @ double_quote @ title @ double_quote
          @ '' ha sido enviada exitosamente.'')
       (Some pid) w"

definition createNewApplicationNotification ::
    "services \<Rightarrow> nat \<Rightarrow> nat \<Rightarrow> string \<Rightarrow> string \<Rightarrow> world \<Rightarrow> notification_result \<times> world" where
  "createNewApplicationNotification svc companyId pid title name w =
     createNotification svc companyId ''new_application''
       (''Nueva Aplicaci'' @ o_acute @ ''n Recibida'')
       (''Has recibido una nueva aplicaci'' @ o_acute @ ''n de '' @ name @ '' para el proyecto ''
          @ double_quote @ title @ double_quote @ ''.'')
       (Some pid) w"

text \<open>The \<open>switch (status)\<close> of \<open>createApplicationStatusNotification\<close>: title and message.\<close>

definition status_notification_text :: "string \<Rightarrow> string \<Rightarrow> string \<times> string" where
  "status_notification_text title st =
     (if st = ''accepted'' then
        (inverted_exclamation @ ''Aplicaci'' @ o_acute @ ''n Aceptada!'',
         ''Tu aplicaci'' @ o_acute @ ''n para el proyecto '' @ double_quote @ title @ double_quote
           @ '' ha sido aceptada. '' @ inverted_exclamation @ ''Felicidades!'')
      else if st = ''rejected'' then
        (''Aplicaci'' @ o_acute @ ''n Rechazada'',
         ''Tu aplicaci'' @ o_acute @ ''n para el proyecto '' @ double_quote @ title @ double_quote
           @ '' no ha sido seleccionada en esta ocasi'' @ o_acute @ ''n.'')
      else if st = ''withdrawn'' then
        (''Aplicaci'' @ o_acute @ ''n Retirada'',
         ''Has retirado tu aplicaci'' @ o_acute @ ''n para el proyecto '' @ double_quote @ title
           @ double_quote @ ''.'')
      else
        (''Estado de Aplicaci'' @ o_acute @ ''n Actualizado'',
         ''El estado de tu aplicaci'' @ o_acute @ ''n para el proyecto '' @ double_quote @ title
           @ double_quote @ '' ha sido actualizado.''))"

definition createApplicationStatusNotification ::
    "services \<Rightarrow> nat \<Rightarrow> nat \<Rightarrow> string \<Rightarrow> string \<Rightarrow> world \<Rightarrow> notification_result \<times> world" where
  "createApplicationStatusNotification svc technicianId pid title st w =
     createNotification svc technicianId ''application_status''
       (fst (status_notification_text title st)) (snd (status_notification_text title st))
       (Some pid) w"

section \<open>routes/applications: responses\<close>

text \<open>A response is the HTTP status with the JSON body.\<close>

datatype json_body =
    ErrorMessage string string
  | InvalidData string "string list"
  | ApplicationCreated string nat
  | StatusUpdated string string
  | MessageOnly string

type_synonym response = "nat \<times> json_body"

definition apply_forbidden :: response where
  "apply_forbidden =
     (403, ErrorMessage ''Acceso denegado''
             (''Solo los t'' @ e_acute @ ''cnicos pueden aplicar a proyectos''))"

definition apply_cv_required :: response where
  "apply_cv_required =
     (400, ErrorMessage ''CV requerido'' ''Debes subir tu CV antes de poder aplicar a proyectos'')"

definition apply_project_not_found :: response where
  "apply_project_not_found =
     (404, ErrorMessage ''Proyecto no encontrado''
             (''El proyecto no existe o no est'' @ a_acute @ '' disponible''))"

definition apply_already_applied :: response where
  "apply_already_applied =
     (400, ErrorMessage ''Ya aplicaste'' ''Ya has aplicado a este proyecto'')"

definition apply_internal_error :: response where
  "apply_internal_error =
     (500, ErrorMessage ''Error interno del servidor'' ''Error al aplicar al proyecto'')"

definition apply_created :: "nat \<Rightarrow> response" where
  "apply_created insertId =
     (201, ApplicationCreated (''Aplicaci'' @ o_acute @ ''n enviada exitosamente'') insertId)"

definition invalid_data :: "string list \<Rightarrow> response" where
  "invalid_data details = (400, InvalidData (''Datos inv'' @ a_acute @ ''lidos'') details)"

definition status_not_found :: response where
  "status_not_found =
     (404, ErrorMessage (''Aplicaci'' @ o_acute @ ''n no encontrada'')
             (''La aplicaci'' @ o_acute @ ''n no existe''))"

definition status_forbidden :: response where
  "status_forbidden =
     (403, ErrorMessage ''Acceso denegado''
             (''No tienes permisos para cambiar el estado de esta aplicaci'' @ o_acute @ ''n''))"

definition status_updated :: "string \<Rightarrow> response" where
  "status_updated st =
     (200, StatusUpdated (''Estado de aplicaci'' @ o_acute @ ''n actualizado exitosamente'') st)"

definition withdraw_not_found :: response where
  "withdraw_not_found =
     (404, ErrorMessage (''Aplicaci'' @ o_acute @ ''n no encontrada'')
             (''La aplicaci'' @ o_acute @ ''n no existe o no tienes permisos para modificarla''))"

definition withdraw_forbidden :: response where
  "withdraw_forbidden =
     (403, ErrorMessage ''Acceso denegado''
             (''Solo los t'' @ e_acute @ ''cnicos pueden retirar aplicaciones''))"

definition withdraw_not_pending :: response where
  "withdraw_not_pending =
     (400, ErrorMessage (''Estado inv'' @ a_acute @ ''lido'')
             ''Solo se pueden retirar aplicaciones pendientes'')"

definition withdraw_done :: response where
  "withdraw_done = (200, MessageOnly (''Aplicaci'' @ o_acute @ ''n retirada exitosamente''))"

definition withdraw_internal_error :: response where
  "withdraw_internal_error =
     (500, ErrorMessage ''Error interno del servidor''
             (''Error al retirar la aplicaci'' @ o_acute @ ''n''))"

section \<open>routes/applications: POST /applications\<close>

text \<open>
  The request body with its fields already parsed: the validators \<open>isInt\<close>,
  \<open>isFloat\<close> and \<open>isDate\<close> hold by typing, \<open>notEmpty\<close> on the cover letter
  remains (an absent cover letter is the empty string).
\<close>

record apply_body =
  b_projectId :: nat
  b_coverLetter :: string
  b_proposedRate :: "int option"
  b_availabilityStart :: "string option"
  b_availabilityEnd :: "string option"

definition apply_validation_errors :: "apply_body \<Rightarrow> string list" where
  "apply_validation_errors b =
     (if b_coverLetter b = [] then [''Carta de presentaci'' @ o_acute @ ''n requerida''] else [])"

text \<open>\<open>SELECT cv_uploaded FROM technician_profiles WHERE user_id = ?\<close>\<close>

definition technicianProfile_query :: "world \<Rightarrow> nat \<Rightarrow> technician_profile_row list" where
  "technicianProfile_query w uid = filter (\<lambda>tp. tp_user_id tp = uid) (technician_profiles w)"

text \<open>
  The technician's profile row, the first one the query returns, has \<open>cv_uploaded\<close>:
  the negation of the handler's test
  \<open>technicianProfile.length === 0 || !technicianProfile[0].cv_uploaded\<close>.
\<close>

definition profile_has_cv :: "world \<Rightarrow> nat \<Rightarrow> bool" where
  "profile_has_cv w uid =
     (case technicianProfile_query w uid of [] \<Rightarrow> False | tp # _ \<Rightarrow> tp_cv_uploaded tp)"

text \<open>\<open>SELECT * FROM projects WHERE id = ? AND status = "open"\<close>\<close>

definition open_project_query :: "world \<Rightarrow> nat \<Rightarrow> project_row list" where
  "open_project_query w pid = filter (\<lambda>p. p_id p = pid \<and> p_status p = ''open'') (projects w)"

text \<open>\<open>SELECT id FROM project_applications WHERE project_id = ? AND technician_id = ?\<close>\<close>

definition existingApplication_query :: "world \<Rightarrow> nat \<Rightarrow> nat \<Rightarrow> application_row list" where
  "existingApplication_query w pid uid =
     filter (\<lambda>a. pa_project_id a = pid \<and> pa_technician_id a = uid) (project_applications w)"

text \<open>
  The INSERT of the application; the result is \<open>insertId\<close> with the new world.

  Modelled from the spec: the schema of project_applications is not among the sources.
  The INSERT names neither id nor status; the id is the table's next AUTO_INCREMENT value
  and the status takes its default, \<open>pending\<close> (data model: "status ..., initial =
  pending").
\<close>

definition insert_application :: "requester \<Rightarrow> apply_body \<Rightarrow> world \<Rightarrow> nat \<times> world" where
  "insert_application usr b w =
     (next_application_id w,
      w\<lparr>project_applications := project_applications w @
           [\<lparr> pa_id = next_application_id w, pa_project_id = b_projectId b,
               pa_technician_id = userId usr, pa_cover_letter = b_coverLetter b,
               pa_proposed_rate = b_proposedRate b,
               pa_availability_start = b_availabilityStart b,
               pa_availability_end = b_availabilityEnd b, pa_status = ''pending'' \<rparr>],
        next_application_id := Suc (next_application_id w)\<rparr>)"

record projectInfo_row =
  pi_title :: string
  pi_company_id :: nat
  pi_company_name :: string

text \<open>
  \<open>SELECT p.title, p.company_id, cp.company_name FROM projects p
  JOIN company_profiles cp ON p.company_id = cp.user_id WHERE p.id = ?\<close>
\<close>

definition projectInfo_query :: "world \<Rightarrow> nat \<Rightarrow> projectInfo_row list" where
  "projectInfo_query w pid =
     [\<lparr>pi_title = p_title p, pi_company_id = p_company_id p, pi_company_name = cp_company_name cp\<rparr>.
        p \<leftarrow> projects w, cp \<leftarrow> company_profiles w, p_company_id p = cp_user_id cp, p_id p = pid]"

record technicianInfo_row =
  ti_full_name :: string
  ti_email :: string
  ti_cv_file :: "string option"

text \<open>
  \<open>SELECT u.full_name, u.email, tp.cv_file FROM users u
  LEFT JOIN technician_profiles tp ON u.id = tp.user_id WHERE u.id = ?\<close>:
  a user without a profile gives one row with a NULL \<open>cv_file\<close>.
\<close>

definition technicianInfo_query :: "world \<Rightarrow> nat \<Rightarrow> technicianInfo_row list" where
  "technicianInfo_query w uid =
     concat (map (\<lambda>u.
        case filter (\<lambda>tp. tp_user_id tp = u_id u) (technician_profiles w) of
          [] \<Rightarrow> [\<lparr>ti_full_name = u_full_name u, ti_email = u_email u, ti_cv_file = None\<rparr>]
        | tps \<Rightarrow> map (\<lambda>tp. \<lparr>ti_full_name = u_full_name u, ti_email = u_email u,
                              ti_cv_file = tp_cv_file tp\<rparr>) tps)
       (filter (\<lambda>u. u_id u = uid) (users w)))"

text \<open>\<open>process.env.UPLOAD_PATH || './uploads'\<close>\<close>

definition upload_root :: "services \<Rightarrow> string" where
  "upload_root svc =
     (case process_env svc ''UPLOAD_PATH'' of
        None \<Rightarrow> ''./uploads''
      | Some v \<Rightarrow> if v = [] then ''./uploads'' else v)"

text \<open>\<open>technicianInfo.cv_file ? path.join(..., technicianInfo.cv_file) : null\<close>\<close>

definition cv_file_path :: "services \<Rightarrow> technicianInfo_row \<Rightarrow> string option" where
  "cv_file_path svc technicianInfo =
     (case ti_cv_file technicianInfo of
        None \<Rightarrow> None
      | Some f \<Rightarrow> if f = [] then None else Some (path_join svc (upload_root svc) f))"

text \<open>
  \<open>submitApplication\<close> is the handler after input validation. Reading a field of
  \<open>projectInfo\<close> or \<open>technicianInfo\<close> when the query gave no row throws a
  TypeError, which the handler's \<open>catch\<close> turns into the 500 response; what was
  written before stays written.
\<close>

definition submitApplication ::
    "services \<Rightarrow> requester \<Rightarrow> apply_body \<Rightarrow> world \<Rightarrow> response \<times> world" where
  "submitApplication svc usr b w =
     (if userType usr \<noteq> ''technician'' then (apply_forbidden, w)
      else
        let technicianProfile = technicianProfile_query w (userId usr) in
        if technicianProfile = [] \<or> \<not> tp_cv_uploaded (hd technicianProfile)
        then (apply_cv_required, w)
        else
          let project = open_project_query w (b_projectId b) in
          if project = [] then (apply_project_not_found, w)
          else
            let existingApplication = existingApplication_query w (b_projectId b) (userId usr) in
            if length existingApplication > 0 then (apply_already_applied, w)
            else
              let (insertId, w1) = insert_application usr b w;
                  projectInfos = projectInfo_query w1 (b_projectId b);
                  technicianInfos = technicianInfo_query w1 (userId usr)
              in case projectInfos of
                   [] \<Rightarrow> (apply_internal_error, w1)
                 | projectInfo # _ \<Rightarrow>
                     let (r1, w2) = createJobApplicationNotification svc (userId usr)
                                      (b_projectId b) (pi_title projectInfo) w1
                     in (case technicianInfos of
                          [] \<Rightarrow> (apply_internal_error, w2)
                        | technicianInfo # _ \<Rightarrow>
                            let (r2, w3) = createNewApplicationNotification svc
                                             (pi_company_id projectInfo) (b_projectId b)
                                             (pi_title projectInfo) (ti_full_name technicianInfo) w2;
                                (r3, w4) = sendApplicationConfirmationEmail svc
                                             (ti_email technicianInfo) (ti_full_name technicianInfo)
                                             (pi_title projectInfo) w3;
                                (r4, w5) = sendJobApplicationEmail svc
                                             \<lparr> technicianName = ti_full_name technicianInfo,
                                               technicianEmail = ti_email technicianInfo,
                                               projectTitle = pi_title projectInfo,
                                               companyName = pi_company_name projectInfo,
                                               coverLetter = b_coverLetter b,
                                               proposedRate = b_proposedRate b,
                                               cvFilePath = cv_file_path svc technicianInfo \<rparr> w4
                            in (apply_created insertId, w5)))"

text \<open>The route: validation first, then the handler's body.\<close>

definition post_applications ::
    "services \<Rightarrow> requester \<Rightarrow> apply_body \<Rightarrow> world \<Rightarrow> response \<times> world" where
  "post_applications svc usr b w =
     (if apply_validation_errors b \<noteq> [] then (invalid_data (apply_validation_errors b), w)
      else submitApplication svc usr b w)"

section \<open>routes/applications: PUT /applications/:id/status\<close>

record status_body =
  b_status :: string
  b_message :: "string option"

text \<open>
  \<open>body('status').isIn(['pending', 'accepted', 'rejected', 'withdrawn'])\<close>. The
  status is a string (an absent status is the empty string) and the message an optional
  string, so \<open>body('message').optional().isString()\<close> holds by typing.
\<close>

definition status_validation_errors :: "status_body \<Rightarrow> string list" where
  "status_validation_errors b =
     (if b_status b \<in> set [''pending'', ''accepted'', ''rejected'', ''withdrawn''] then []
      else [''Estado inv'' @ a_acute @ ''lido''])"

text \<open>
  \<open>SELECT pa.*, p.title, p.company_id, u.full_name, u.email FROM project_applications pa
  JOIN projects p ON pa.project_id = p.id JOIN users u ON pa.technician_id = u.id
  WHERE pa.id = ?\<close>
\<close>

definition application_status_query ::
    "world \<Rightarrow> nat \<Rightarrow> (application_row \<times> project_row \<times> user_row) list" where
  "application_status_query w aid =
     [(pa, p, u). pa \<leftarrow> project_applications w, p \<leftarrow> projects w, pa_project_id pa = p_id p,
                  u \<leftarrow> users w, pa_technician_id pa = u_id u, pa_id pa = aid]"

text \<open>\<open>UPDATE project_applications SET status = ? WHERE id = ?\<close>\<close>

definition update_application_status :: "nat \<Rightarrow> string \<Rightarrow> world \<Rightarrow> world" where
  "update_application_status aid st w =
     w\<lparr>project_applications :=
         map (\<lambda>a. if pa_id a = aid then a\<lparr>pa_status := st\<rparr> else a) (project_applications w)\<rparr>"

definition updateStatus ::
    "services \<Rightarrow> requester \<Rightarrow> nat \<Rightarrow> string \<Rightarrow> world \<Rightarrow> response \<times> world" where
  "updateStatus svc usr aid st w =
     (case application_status_query w aid of
        [] \<Rightarrow> (status_not_found, w)
      | (pa, p, u) # _ \<Rightarrow>
          if userType usr \<noteq> ''company'' \<or> p_company_id p \<noteq> userId usr
          then (status_forbidden, w)
          else
            let w1 = update_application_status aid st w;
                (r, w2) = createApplicationStatusNotification svc (pa_technician_id pa)
                            (pa_project_id pa) (p_title p) st w1
            in (status_updated st, w2))"

definition put_application_status ::
    "services \<Rightarrow> requester \<Rightarrow> nat \<Rightarrow> status_body \<Rightarrow> world \<Rightarrow> response \<times> world" where
  "put_application_status svc usr aid b w =
     (if status_validation_errors b \<noteq> [] then (invalid_data (status_validation_errors b), w)
      else updateStatus svc usr aid (b_status b) w)"

section \<open>routes/applications: PUT /applications/:id/withdraw\<close>

text \<open>
  The names the module binds at its top: the \<open>require\<close>s of lines 1 to 7 and
  \<open>router\<close>. The handler of the status route binds
  \<open>createApplicationStatusNotification\<close> by a \<open>const\<close> inside its own
  \<open>try\<close> block, so that name is not among them.
\<close>

definition module_bindings :: "string list" where
  "module_bindings =
     [''express'', ''body'', ''validationResult'', ''query'', ''authenticateToken'',
      ''sendJobApplicationEmail'', ''sendApplicationConfirmationEmail'',
      ''createJobApplicationNotification'', ''createNewApplicationNotification'',
      ''path'', ''router'']"

text \<open>The names in scope where the withdraw handler creates its notification.\<close>

definition withdraw_bindings :: "string list" where
  "withdraw_bindings = [''req'', ''res'', ''id'', ''application''] @ module_bindings"

text \<open>
  \<open>SELECT pa.*, p.title FROM project_applications pa JOIN projects p
  ON pa.project_id = p.id WHERE pa.id = ? AND pa.technician_id = ?\<close>
\<close>

definition withdraw_query :: "world \<Rightarrow> nat \<Rightarrow> nat \<Rightarrow> (application_row \<times> project_row) list" where
  "withdraw_query w aid uid =
     [(pa, p). pa \<leftarrow> project_applications w, p \<leftarrow> projects w, pa_project_id pa = p_id p,
               pa_id pa = aid \<and> pa_technician_id pa = uid]"

text \<open>
  Evaluating a name that is not in scope throws a ReferenceError, which the handler's
  \<open>catch\<close> turns into the 500 response, after the UPDATE.
\<close>

definition withdraw :: "services \<Rightarrow> requester \<Rightarrow> nat \<Rightarrow> world \<Rightarrow> response \<times> world" where
  "withdraw svc usr aid w =
     (case withdraw_query w aid (userId usr) of
        [] \<Rightarrow> (withdraw_not_found, w)
      | (pa, p) # _ \<Rightarrow>
          if userType usr \<noteq> ''technician'' then (withdraw_forbidden, w)
          else if pa_status pa \<noteq> ''pending'' then (withdraw_not_pending, w)
          else
            let w1 = update_application_status aid ''withdrawn'' w in
            if ''createApplicationStatusNotification'' \<in> set withdraw_bindings then
              let (r, w2) = createApplicationStatusNotification svc (userId usr)
                              (pa_project_id pa) (p_title p) ''withdrawn'' w1
              in (withdraw_done, w2)
            else (withdraw_internal_error, w1))"

section \<open>A sample deployment\<close>

text \<open>
  Technician 1 (with a CV) and company 2, which owns the open project 10. The
  properties below are instantiated on it. \<open>failing_services\<close> is the same
  deployment while the mail transport refuses every message and the storage rejects
  every notification.
\<close>

definition demo_env :: "string \<Rightarrow> string option" where
  "demo_env = [''EMAIL_USER'' \<mapsto> ''ops@example.org'', ''EMAIL_PASS'' \<mapsto> ''secret'']"

definition demo_services :: services where
  "demo_services =
     \<lparr> process_env = demo_env,
       transporter_sendMail = (\<lambda>m. Inr ''message-1''),
       notification_insert_error = (\<lambda>r. None),
       path_join = (\<lambda>a b. a @ ''/'' @ b) \<rparr>"

definition failing_services :: services where
  "failing_services =
     demo_services\<lparr> transporter_sendMail := (\<lambda>m. Inl ''ECONNREFUSED''),
                    notification_insert_error := (\<lambda>r. Some ''ER_LOCK_WAIT_TIMEOUT'') \<rparr>"

text \<open>The storage rejects the notifications of type \<open>job_application\<close> only.\<close>

definition partial_services :: services where
  "partial_services =
     demo_services\<lparr> notification_insert_error :=
       (\<lambda>r. if n_type r = ''job_application'' then Some ''ER_LOCK_WAIT_TIMEOUT'' else None) \<rparr>"

definition demo_project :: project_row where
  "demo_project = \<lparr>p_id = 10, p_title = ''HVAC'', p_company_id = 2, p_status = ''open''\<rparr>"

definition demo_world :: world where
  "demo_world =
     \<lparr> users = [\<lparr>u_id = 1, u_full_name = ''Ana Ruiz'', u_email = ''ana@example.org''\<rparr>,
                \<lparr>u_id = 2, u_full_name = ''Acme'', u_email = ''rrhh@acme.example''\<rparr>],
       technician_profiles = [\<lparr>tp_user_id = 1, tp_cv_uploaded = True, tp_cv_file = Some ''cv-1.pdf''\<rparr>],
       company_profiles = [\<lparr>cp_user_id = 2, cp_company_name = ''Acme SAC''\<rparr>],
       projects = [demo_project],
       project_applications = [],
       notifications = [],
       next_application_id = 1,
       next_notification_id = 1,
       transport_calls = [] \<rparr>"

definition demo_data :: applicationData where
  "demo_data =
     \<lparr> technicianName = ''Ana Ruiz'', technicianEmail = ''ana@example.org'',
       projectTitle = ''HVAC'', companyName = ''Acme SAC'',
       coverLetter = ''Experienced in HVAC installs and repair work'',
       proposedRate = Some 120, cvFilePath = Some ''uploads/cv-1.pdf'' \<rparr>"

definition demo_technician :: requester where
  "demo_technician = \<lparr>userId = 1, userType = ''technician''\<rparr>"

definition demo_company :: requester where
  "demo_company = \<lparr>userId = 2, userType = ''company''\<rparr>"

definition demo_body :: apply_body where
  "demo_body =
     \<lparr> b_projectId = 10, b_coverLetter = ''Experienced in HVAC installs and repair work'',
       b_proposedRate = Some 120, b_availabilityStart = None, b_availabilityEnd = None \<rparr>"

text \<open>The application 1 of technician 1 to project 10, with a given status.\<close>

definition demo_application :: "string \<Rightarrow> application_row" where
  "demo_application st =
     \<lparr> pa_id = 1, pa_project_id = 10, pa_technician_id = 1,
       pa_cover_letter = ''Experienced in HVAC installs and repair work'',
       pa_proposed_rate = Some 120, pa_availability_start = None,
       pa_availability_end = None, pa_status = st \<rparr>"

definition demo_applied :: "string \<Rightarrow> world" where
  "demo_applied st =
     demo_world\<lparr>project_applications := [demo_application st], next_application_id := 2\<rparr>"

text \<open>Company 3 owns no project.\<close>

definition other_company :: requester where
  "other_company = \<lparr>userId = 3, userType = ''company''\<rparr>"

text \<open>User 1, the technician of application 1, when the account's type is \<open>company\<close>.\<close>

definition former_technician :: requester where
  "former_technician = \<lparr>userId = 1, userType = ''company''\<rparr>"

section \<open>Frame and query lemmas\<close>

text \<open>
  What each service call leaves alone, what each query reads, and the world a successful
  submission ends in.
\<close>

lemma validateEmailConfig_iff:
  "validateEmailConfig env \<longleftrightarrow>
     \<not> env_missing env ''EMAIL_USER'' \<and> \<not> env_missing env ''EMAIL_PASS''"
  by (simp add: validateEmailConfig_def)


lemma profile_has_cv_iff:
  "profile_has_cv w uid \<longleftrightarrow>
     \<not> (technicianProfile_query w uid = [] \<or> \<not> tp_cv_uploaded (hd (technicianProfile_query w uid)))"
  by (cases "technicianProfile_query w uid") (simp_all add: profile_has_cv_def)

lemma post_applications_valid:
  "b_coverLetter b \<noteq> [] \<Longrightarrow> post_applications svc usr b w = submitApplication svc usr b w"
  by (simp add: post_applications_def apply_validation_errors_def)

lemma open_project_query_empty:
  "open_project_query w pid = [] \<longleftrightarrow>
     \<not> (\<exists>p \<in> set (projects w). p_id p = pid \<and> p_status p = ''open'')"
  by (auto simp: open_project_query_def filter_empty_conv)

lemma existingApplication_query_nonempty:
  "length (existingApplication_query w pid uid) > 0 \<longleftrightarrow>
     (\<exists>a \<in> set (project_applications w). pa_project_id a = pid \<and> pa_technician_id a = uid)"
  by (auto simp: existingApplication_query_def filter_empty_conv)

lemma createNotification_frame:
  "users (snd (createNotification svc uid t ti m r w)) = users w"
  "technician_profiles (snd (createNotification svc uid t ti m r w)) = technician_profiles w"
  "company_profiles (snd (createNotification svc uid t ti m r w)) = company_profiles w"
  "projects (snd (createNotification svc uid t ti m r w)) = projects w"
  "project_applications (snd (createNotification svc uid t ti m r w)) = project_applications w"
  "next_application_id (snd (createNotification svc uid t ti m r w)) = next_application_id w"
  "transport_calls (snd (createNotification svc uid t ti m r w)) = transport_calls w"
  by (simp_all add: createNotification_def Let_def split: option.splits)

lemma sendApplicationConfirmationEmail_frame:
  "users (snd (sendApplicationConfirmationEmail svc e n t w)) = users w"
  "technician_profiles (snd (sendApplicationConfirmationEmail svc e n t w)) = technician_profiles w"
  "company_profiles (snd (sendApplicationConfirmationEmail svc e n t w)) = company_profiles w"
  "projects (snd (sendApplicationConfirmationEmail svc e n t w)) = projects w"
  "project_applications (snd (sendApplicationConfirmationEmail svc e n t w)) = project_applications w"
  "notifications (snd (sendApplicationConfirmationEmail svc e n t w)) = notifications w"
  "next_application_id (snd (sendApplicationConfirmationEmail svc e n t w)) = next_application_id w"
  "next_notification_id (snd (sendApplicationConfirmationEmail svc e n t w)) = next_notification_id w"
  by (simp_all add: sendApplicationConfirmationEmail_def Let_def split: sum.splits)

lemma sendJobApplicationEmail_frame:
  "users (snd (sendJobApplicationEmail svc d w)) = users w"
  "technician_profiles (snd (sendJobApplicationEmail svc d w)) = technician_profiles w"
  "company_profiles (snd (sendJobApplicationEmail svc d w)) = company_profiles w"
  "projects (snd (sendJobApplicationEmail svc d w)) = projects w"
  "project_applications (snd (sendJobApplicationEmail svc d w)) = project_applications w"
  "notifications (snd (sendJobApplicationEmail svc d w)) = notifications w"
  "next_application_id (snd (sendJobApplicationEmail svc d w)) = next_application_id w"
  "next_notification_id (snd (sendJobApplicationEmail svc d w)) = next_notification_id w"
  by (simp_all add: sendJobApplicationEmail_def Let_def split: sum.splits)

lemma insert_application_queries:
  "projectInfo_query (snd (insert_application usr b w)) pid = projectInfo_query w pid"
  "technicianInfo_query (snd (insert_application usr b w)) uid = technicianInfo_query w uid"
  "fst (insert_application usr b w) = next_application_id w"
  by (simp_all add: insert_application_def projectInfo_query_def technicianInfo_query_def)

lemmas notification_constructors =
  createJobApplicationNotification_def createNewApplicationNotification_def
  createApplicationStatusNotification_def

lemma submit_response_independent:
  "fst (submitApplication svc usr b w) = fst (submitApplication svc' usr b w)"
  by (simp add: submitApplication_def Let_def split_beta insert_application_queries
      split: list.splits)

lemma update_status_response_independent:
  "fst (updateStatus svc usr aid st w) = fst (updateStatus svc' usr aid st w)"
  by (simp add: updateStatus_def Let_def split_beta split: list.splits)

lemma submit_applications_independent:
  "project_applications (snd (submitApplication svc usr b w))
     = project_applications (snd (submitApplication svc' usr b w))"
  by (simp add: submitApplication_def Let_def split_beta insert_application_queries
      notification_constructors createNotification_frame
      sendApplicationConfirmationEmail_frame sendJobApplicationEmail_frame
      split: list.splits)

lemma update_status_applications_independent:
  "project_applications (snd (updateStatus svc usr aid st w))
     = project_applications (snd (updateStatus svc' usr aid st w))"
  by (simp add: updateStatus_def Let_def split_beta notification_constructors
      createNotification_frame split: list.splits)

lemma updateStatus_applications:
  "fst (updateStatus svc usr aid st w) = status_updated st \<Longrightarrow>
   project_applications (snd (updateStatus svc usr aid st w))
     = project_applications (update_application_status aid st w)"
  by (auto simp: updateStatus_def Let_def split_beta notification_constructors
      createNotification_frame status_updated_def status_not_found_def status_forbidden_def
      split: list.splits if_splits)

lemma submit_created_applications:
  "fst (submitApplication svc usr b w) = apply_created n \<Longrightarrow>
   project_applications (snd (submitApplication svc usr b w))
     = project_applications (snd (insert_application usr b w))"
  by (auto simp: submitApplication_def Let_def split_beta insert_application_queries
      notification_constructors createNotification_frame
      sendApplicationConfirmationEmail_frame sendJobApplicationEmail_frame
      apply_created_def apply_forbidden_def apply_cv_required_def apply_project_not_found_def
      apply_already_applied_def apply_internal_error_def
      split: list.splits if_splits)

lemma submit_created_preconditions:
  assumes "fst (submitApplication svc usr b w) = apply_created n"
  shows "userType usr = ''technician''" 
    and "profile_has_cv w (userId usr)"
    and "open_project_query w (b_projectId b) \<noteq> []"
    and "existingApplication_query w (b_projectId b) (userId usr) = []"
    and "projectInfo_query w (b_projectId b) \<noteq> []"
    and "technicianInfo_query w (userId usr) \<noteq> []"
    and "n = next_application_id w"
  using assms
  by (auto simp: submitApplication_def Let_def split_beta insert_application_queries
      profile_has_cv_iff
      apply_created_def apply_forbidden_def apply_cv_required_def apply_project_not_found_def
      apply_already_applied_def apply_internal_error_def
      split: list.splits if_splits)

lemma submit_created_world:
  assumes "fst (submitApplication svc usr b w) = apply_created n"
  shows "snd (submitApplication svc usr b w) =
     (let projectInfo = hd (projectInfo_query w (b_projectId b));
          technicianInfo = hd (technicianInfo_query w (userId usr));
          w1 = snd (insert_application usr b w);
          w2 = snd (createJobApplicationNotification svc (userId usr) (b_projectId b)
                      (pi_title projectInfo) w1);
          w3 = snd (createNewApplicationNotification svc (pi_company_id projectInfo)
                      (b_projectId b) (pi_title projectInfo) (ti_full_name technicianInfo) w2);
          w4 = snd (sendApplicationConfirmationEmail svc (ti_email technicianInfo)
                      (ti_full_name technicianInfo) (pi_title projectInfo) w3)
      in snd (sendJobApplicationEmail svc
                \<lparr> technicianName = ti_full_name technicianInfo,
                  technicianEmail = ti_email technicianInfo,
                  projectTitle = pi_title projectInfo,
                  companyName = pi_company_name projectInfo,
                  coverLetter = b_coverLetter b,
                  proposedRate = b_proposedRate b,
                  cvFilePath = cv_file_path svc technicianInfo \<rparr> w4))"
  using assms
  by (auto simp: submitApplication_def Let_def split_beta insert_application_queries
      apply_created_def apply_forbidden_def apply_cv_required_def apply_project_not_found_def
      apply_already_applied_def apply_internal_error_def
      split: list.splits if_splits)

lemma createNotification_notifications:
  "notifications (snd (createNotification svc uid t ti m r w)) =
     notifications w @
       (let row = \<lparr> n_id = next_notification_id w, n_user_id = uid, n_type = t, n_title = ti,
                     n_message = m, n_related_id = r, n_is_read = False \<rparr>
        in case notification_insert_error svc row of None \<Rightarrow> [row] | Some err \<Rightarrow> [])"
  by (simp add: createNotification_def Let_def split: option.splits)

lemma send_transport_calls:
  "transport_calls (snd (sendApplicationConfirmationEmail svc e n t w)) =
     transport_calls w @ (if isEmailConfigured svc then [confirmation_mail svc e n t] else [])"
  "transport_calls (snd (sendJobApplicationEmail svc d w)) =
     transport_calls w @ (if isEmailConfigured svc then [job_application_mail svc d] else [])"
  by (simp_all add: sendApplicationConfirmationEmail_def sendJobApplicationEmail_def Let_def
      split: sum.splits)

lemma projectInfo_query_mem:
  "r \<in> set (projectInfo_query w pid) \<Longrightarrow>
   \<exists>p \<in> set (projects w). p_id p = pid \<and> pi_company_id r = p_company_id p
      \<and> pi_title r = p_title p"
  by (auto simp: projectInfo_query_def split: if_splits)

lemma projectInfo_query_project:
  "projectInfo_query w pid \<noteq> [] \<Longrightarrow>
   \<exists>p \<in> set (projects w). p_id p = pid
      \<and> pi_company_id (hd (projectInfo_query w pid)) = p_company_id p
      \<and> pi_title (hd (projectInfo_query w pid)) = p_title p"
  by (rule projectInfo_query_mem) simp

lemma insert_application_frame:
  "notifications (snd (insert_application usr b w)) = notifications w"
  "transport_calls (snd (insert_application usr b w)) = transport_calls w"
  "projects (snd (insert_application usr b w)) = projects w"
  "next_notification_id (snd (insert_application usr b w)) = next_notification_id w"
  by (simp_all add: insert_application_def)

lemma two_notifications:
  "notifications (snd (createNotification svc u2 t2 ti2 m2 r2
                   (snd (createNotification svc u1 t1 ti1 m1 r1 w)))) =
     (let row1 = \<lparr> n_id = next_notification_id w, n_user_id = u1, n_type = t1, n_title = ti1,
                      n_message = m1, n_related_id = r1, n_is_read = False \<rparr>;
          rows1 = (case notification_insert_error svc row1 of None \<Rightarrow> [row1] | Some err \<Rightarrow> []);
          row2 = \<lparr> n_id = next_notification_id w + length rows1, n_user_id = u2, n_type = t2,
                      n_title = ti2, n_message = m2, n_related_id = r2, n_is_read = False \<rparr>;
          rows2 = (case notification_insert_error svc row2 of None \<Rightarrow> [row2] | Some err \<Rightarrow> [])
      in notifications w @ rows1 @ rows2)"
  by (simp add: createNotification_def Let_def split: option.splits)

lemma technicianInfo_rows_of_user:
  "r \<in> set (case tps of
               [] \<Rightarrow> [\<lparr>ti_full_name = a, ti_email = e, ti_cv_file = None\<rparr>]
             | x # xs \<Rightarrow> map (\<lambda>tp. \<lparr>ti_full_name = a, ti_email = e, ti_cv_file = tp_cv_file tp\<rparr>)
                          (x # xs)) \<Longrightarrow>
   ti_email r = e \<and> ti_full_name r = a"
  by (cases tps) auto

lemma technicianInfo_query_mem:
  assumes "r \<in> set (technicianInfo_query w uid)"
  shows "\<exists>u \<in> set (users w). u_id u = uid \<and> ti_email r = u_email u \<and> ti_full_name r = u_full_name u"
proof -
  from assms obtain u where u: "u \<in> set (users w)" "u_id u = uid"
    and r: "r \<in> set (case filter (\<lambda>tp. tp_user_id tp = u_id u) (technician_profiles w) of
               [] \<Rightarrow> [\<lparr>ti_full_name = u_full_name u, ti_email = u_email u, ti_cv_file = None\<rparr>]
             | x # xs \<Rightarrow> map (\<lambda>tp. \<lparr>ti_full_name = u_full_name u, ti_email = u_email u,
                                      ti_cv_file = tp_cv_file tp\<rparr>) (x # xs))"
    unfolding technicianInfo_query_def by auto
  from technicianInfo_rows_of_user [OF r] u show ?thesis by blast
qed

lemma technicianInfo_query_user:
  "technicianInfo_query w uid \<noteq> [] \<Longrightarrow>
   \<exists>u \<in> set (users w). u_id u = uid
      \<and> ti_email (hd (technicianInfo_query w uid)) = u_email u
      \<and> ti_full_name (hd (technicianInfo_query w uid)) = u_full_name u"
  by (rule technicianInfo_query_mem) simp

lemma withdraw_query_mem:
  "r \<in> set (withdraw_query w aid uid) \<Longrightarrow>
   fst r \<in> set (project_applications w) \<and> pa_id (fst r) = aid \<and> pa_technician_id (fst r) = uid"
  by (auto simp: withdraw_query_def split: if_splits)

lemma withdraw_query_none:
  assumes "\<not> (\<exists>pa \<in> set (project_applications w). pa_id pa = aid \<and> pa_technician_id pa = uid)"
  shows "withdraw_query w aid uid = []"
proof (cases "withdraw_query w aid uid")
  case Nil
  then show ?thesis .
next
  case (Cons r rs)
  then have "r \<in> set (withdraw_query w aid uid)" by simp
  from withdraw_query_mem [OF this] assms show ?thesis by blast
qed

lemma status_overwritten:
  "\<forall>a \<in> set (map (\<lambda>a. if pa_id a = aid then a\<lparr>pa_status := st\<rparr> else a) xs).
             pa_id a = aid \<longrightarrow> pa_status a = st"
proof (intro ballI impI)
  fix a
  assume m: "a \<in> set (map (\<lambda>a. if pa_id a = aid then a\<lparr>pa_status := st\<rparr> else a) xs)"
    and i: "pa_id a = aid"
  from m have "a \<in> (\<lambda>a. if pa_id a = aid then a\<lparr>pa_status := st\<rparr> else a) ` set xs"
    by (simp only: set_map)
  then obtain a0 where a: "a = (if pa_id a0 = aid then a0\<lparr>pa_status := st\<rparr> else a0)"
    by (rule imageE)
  show "pa_status a = st"
  proof (cases "pa_id a0 = aid")
    case True
    with a have "a = a0\<lparr>pa_status := st\<rparr>" by (simp only: if_P if_True refl)
    then show ?thesis by simp
  next
    case False
    with a have "a = a0" by (simp only: if_not_P if_False)
    with i False show ?thesis by blast
  qed
qed

lemmas demo_defs =
  demo_env_def demo_services_def failing_services_def demo_project_def demo_world_def
  demo_data_def demo_technician_def demo_company_def demo_body_def demo_application_def
  demo_applied_def

lemmas query_defs =
  technicianProfile_query_def profile_has_cv_def open_project_query_def
  existingApplication_query_def projectInfo_query_def technicianInfo_query_def
  application_status_query_def withdraw_query_def insert_application_def
  update_application_status_def

lemmas service_defs =
  createNotification_def notification_constructors sendApplicationConfirmationEmail_def
  sendJobApplicationEmail_def isEmailConfigured_def validateEmailConfig_def env_missing_def

lemma demo_submit:
  "fst (submitApplication demo_services demo_technician demo_body demo_world) = apply_created 1"
  by (simp add: submitApplication_def demo_defs query_defs Let_def split_beta)

lemma demo_submit_partial:
  "fst (submitApplication partial_services demo_technician demo_body demo_world) = apply_created 1"
  by (simp add: submitApplication_def partial_services_def demo_defs query_defs Let_def split_beta)

lemma demo_submit_applications:
  "project_applications (snd (insert_application demo_technician demo_body demo_world))
     = [demo_application ''pending'']"
  by (simp add: demo_defs query_defs)

lemma demo_status_query:
  "application_status_query (demo_applied st) 1
     = [(demo_application st, demo_project,
         \<lparr>u_id = 1, u_full_name = ''Ana Ruiz'', u_email = ''ana@example.org''\<rparr>)]"
  by (simp add: demo_defs query_defs)

lemma demo_update:
  "project_applications (update_application_status 1 st' (demo_applied st)) = [demo_application st']"
  by (simp add: demo_defs query_defs)

section \<open>C1: the order of the eligibility checks\<close>

text \<open>
  C1. \<open>submitApplication\<close> (the POST handler once the body has passed validation)
  checks role, CV, open project and duplicate in this order, each with its own response:
  a requester who is not a technician gets 403 (Forbidden) whatever else holds; a
  technician whose profile row is missing or has no \<open>cv_uploaded\<close> gets 400
  "CV requerido" (PreconditionFailed) whatever the project; with a CV, a project id with
  no open project gets 404 (NotFound) even when an application exists; with a CV and an
  open project, an existing application of this technician to this project gets 400
  "Ya aplicaste" (Conflict). The four responses are pairwise distinct.
\<close>

theorem submitApplication_precondition_order:
  "(userType usr \<noteq> ''technician'' \<longrightarrow> fst (submitApplication svc usr b w) = apply_forbidden)
 \<and> (userType usr = ''technician'' \<and> \<not> profile_has_cv w (userId usr)
      \<longrightarrow> fst (submitApplication svc usr b w) = apply_cv_required)
 \<and> (userType usr = ''technician'' \<and> profile_has_cv w (userId usr)
      \<and> \<not> (\<exists>p \<in> set (projects w). p_id p = b_projectId b \<and> p_status p = ''open'')
      \<longrightarrow> fst (submitApplication svc usr b w) = apply_project_not_found)
 \<and> (userType usr = ''technician'' \<and> profile_has_cv w (userId usr)
      \<and> (\<exists>p \<in> set (projects w). p_id p = b_projectId b \<and> p_status p = ''open'')
      \<and> (\<exists>a \<in> set (project_applications w).
             pa_project_id a = b_projectId b \<and> pa_technician_id a = userId usr)
      \<longrightarrow> fst (submitApplication svc usr b w) = apply_already_applied)
 \<and> distinct [apply_forbidden, apply_cv_required, apply_project_not_found, apply_already_applied]"
proof (intro conjI impI)
  show "distinct [apply_forbidden, apply_cv_required, apply_project_not_found, apply_already_applied]"
    by (simp add: apply_forbidden_def apply_cv_required_def apply_project_not_found_def
        apply_already_applied_def)
next
  assume "userType usr \<noteq> ''technician''"
  then show "fst (submitApplication svc usr b w) = apply_forbidden"
    by (simp add: submitApplication_def)
next
  assume "userType usr = ''technician'' \<and> \<not> profile_has_cv w (userId usr)"
  then show "fst (submitApplication svc usr b w) = apply_cv_required"
    by (simp add: submitApplication_def profile_has_cv_iff)
next
  assume "userType usr = ''technician'' \<and> profile_has_cv w (userId usr)
      \<and> \<not> (\<exists>p \<in> set (projects w). p_id p = b_projectId b \<and> p_status p = ''open'')"
  then show "fst (submitApplication svc usr b w) = apply_project_not_found"
    by (simp add: submitApplication_def profile_has_cv_iff open_project_query_empty)
next
  assume "userType usr = ''technician'' \<and> profile_has_cv w (userId usr)
      \<and> (\<exists>p \<in> set (projects w). p_id p = b_projectId b \<and> p_status p = ''open'')
      \<and> (\<exists>a \<in> set (project_applications w).
             pa_project_id a = b_projectId b \<and> pa_technician_id a = userId usr)"
  then show "fst (submitApplication svc usr b w) = apply_already_applied"
    by (simp add: submitApplication_def profile_has_cv_iff open_project_query_empty
        existingApplication_query_nonempty del: length_greater_0_conv)
qed

text \<open>The four failures on the sample deployment, one per check.\<close>

theorem submitApplication_precondition_order_witness:
  "fst (submitApplication demo_services demo_company demo_body demo_world) = apply_forbidden
 \<and> fst (submitApplication demo_services demo_technician demo_body
          (demo_world\<lparr>technician_profiles := []\<rparr>)) = apply_cv_required
 \<and> fst (submitApplication demo_services demo_technician (demo_body\<lparr>b_projectId := 11\<rparr>)
          demo_world) = apply_project_not_found
 \<and> fst (submitApplication demo_services demo_technician demo_body (demo_applied ''pending''))
     = apply_already_applied"
proof -
  have h1: "userType demo_company \<noteq> ''technician''"
    by (simp add: demo_defs)
  have h2: "userType demo_technician = ''technician''
      \<and> \<not> profile_has_cv (demo_world\<lparr>technician_profiles := []\<rparr>) (userId demo_technician)"
    by (simp add: demo_defs query_defs)
  have h3: "userType demo_technician = ''technician''
      \<and> profile_has_cv demo_world (userId demo_technician)
      \<and> \<not> (\<exists>p \<in> set (projects demo_world).
              p_id p = b_projectId (demo_body\<lparr>b_projectId := 11\<rparr>) \<and> p_status p = ''open'')"
    by (simp add: demo_defs query_defs)
  have h4: "userType demo_technician = ''technician''
      \<and> profile_has_cv (demo_applied ''pending'') (userId demo_technician)
      \<and> (\<exists>p \<in> set (projects (demo_applied ''pending'')).
              p_id p = b_projectId demo_body \<and> p_status p = ''open'')
      \<and> (\<exists>a \<in> set (project_applications (demo_applied ''pending'')).
             pa_project_id a = b_projectId demo_body \<and> pa_technician_id a = userId demo_technician)"
    by (simp add: demo_defs query_defs)
  note t1 = submitApplication_precondition_order [of demo_company demo_services demo_body demo_world]
  note t2 = submitApplication_precondition_order [of demo_technician demo_services demo_body "demo_world\<lparr>technician_profiles := []\<rparr>"]
  note t3 = submitApplication_precondition_order [of demo_technician demo_services "demo_body\<lparr>b_projectId := 11\<rparr>" demo_world]
  note t4 = submitApplication_precondition_order [of demo_technician demo_services demo_body "demo_applied ''pending''"]
  from t1 h1 have a: "fst (submitApplication demo_services demo_company demo_body demo_world) = apply_forbidden"
    by blast
  from t2 h2 have b: "fst (submitApplication demo_services demo_technician demo_body
          (demo_world\<lparr>technician_profiles := []\<rparr>)) = apply_cv_required"
    by blast
  from t3 h3 have c: "fst (submitApplication demo_services demo_technician (demo_body\<lparr>b_projectId := 11\<rparr>)
          demo_world) = apply_project_not_found"
    by blast
  from t4 h4 have d: "fst (submitApplication demo_services demo_technician demo_body (demo_applied ''pending''))
     = apply_already_applied"
    by blast
  from a b c d show ?thesis by blast
qed

section \<open>C2: notifications and mail of a successful submission\<close>

text \<open>
  C2, as the code has it. For every submission answered 201 (with the new application
  id), the notification writer is called exactly twice, first for the submitting
  technician (\<open>job_application\<close>), then for the company owning the project
  (\<open>new_application\<close>), and each call creates its row exactly when the storage
  accepts that INSERT: the notifications after the call are those before it, followed by
  the technician's row if accepted, followed by the company's row if accepted. So two
  rows are created when both inserts are accepted and fewer when one is rejected. At most
  two mails are handed to the transport: the confirmation to the technician's address and
  then the notice to the operations mailbox when the mailer is configured, none when it
  is not. Without mail credentials the same request is still answered 201 with the same
  application id, the transport untouched.
\<close>

theorem submitApplication_fan_out:
  assumes ok: "fst (submitApplication svc usr b w) = apply_created n"
  shows
    "let projectInfo = hd (projectInfo_query w (b_projectId b));
         technicianInfo = hd (technicianInfo_query w (userId usr));
         row1 = \<lparr> n_id = next_notification_id w, n_user_id = userId usr,
                  n_type = ''job_application'',
                  n_title = ''Aplicaci'' @ o_acute @ ''n Enviada'',
                  n_message = ''Tu aplicaci'' @ o_acute @ ''n para el proyecto '' @ double_quote
                     @ pi_title projectInfo @ double_quote @ '' ha sido enviada exitosamente.'',
                  n_related_id = Some (b_projectId b), n_is_read = False \<rparr>;
         rows1 = (case notification_insert_error svc row1 of None \<Rightarrow> [row1] | Some err \<Rightarrow> []);
         row2 = \<lparr> n_id = next_notification_id w + length rows1,
                  n_user_id = pi_company_id projectInfo,
                  n_type = ''new_application'',
                  n_title = ''Nueva Aplicaci'' @ o_acute @ ''n Recibida'',
                  n_message = ''Has recibido una nueva aplicaci'' @ o_acute @ ''n de ''
                     @ ti_full_name technicianInfo @ '' para el proyecto '' @ double_quote
                     @ pi_title projectInfo @ double_quote @ ''.'',
                  n_related_id = Some (b_projectId b), n_is_read = False \<rparr>;
         rows2 = (case notification_insert_error svc row2 of None \<Rightarrow> [row2] | Some err \<Rightarrow> []);
         confirmation =
           \<lparr> mail_from = env_or (process_env svc) ''EMAIL_FROM'' ''EMAIL_USER'',
             mail_to = ti_email technicianInfo,
             mail_subject = ''Confirmaci'' @ o_acute @ ''n de Aplicaci'' @ o_acute @ ''n - ''
                @ pi_title projectInfo,
             mail_body = ConfirmationHtml (ti_full_name technicianInfo) (pi_title projectInfo),
             mail_attachments = [] \<rparr>;
         notice =
           \<lparr> mail_from = env_or (process_env svc) ''EMAIL_FROM'' ''EMAIL_USER'',
             mail_to = ''hola.trabajatecnico@gmail.com'',
             mail_subject = ''Nueva Aplicaci'' @ o_acute @ ''n de Trabajo - '' @ pi_title projectInfo,
             mail_body = NewApplicationHtml (pi_title projectInfo) (pi_company_name projectInfo)
                (ti_full_name technicianInfo) (ti_email technicianInfo)
                (shown_rate (b_proposedRate b)) (b_coverLetter b),
             mail_attachments =
               (case cv_file_path svc technicianInfo of
                  None \<Rightarrow> []
                | Some p \<Rightarrow>
                    if p = [] then []
                    else [\<lparr> att_filename = ''CV_'' @ replace_spaces (ti_full_name technicianInfo)
                                @ ''.pdf'',
                            att_path = p \<rparr>]) \<rparr>
     in n = next_application_id w
      \<and> notifications (snd (submitApplication svc usr b w)) = notifications w @ rows1 @ rows2
      \<and> (\<exists>p \<in> set (projects w). p_id p = b_projectId b
             \<and> pi_company_id projectInfo = p_company_id p \<and> pi_title projectInfo = p_title p)
      \<and> (\<exists>u \<in> set (users w). u_id u = userId usr
             \<and> ti_email technicianInfo = u_email u \<and> ti_full_name technicianInfo = u_full_name u)
      \<and> transport_calls (snd (submitApplication svc usr b w))
           = transport_calls w @ (if isEmailConfigured svc then [confirmation, notice] else [])
      \<and> fst (submitApplication (svc\<lparr>process_env := Map.empty\<rparr>) usr b w) = apply_created n
      \<and> transport_calls (snd (submitApplication (svc\<lparr>process_env := Map.empty\<rparr>) usr b w))
           = transport_calls w"
proof -
  let ?svc0 = "svc\<lparr>process_env := Map.empty\<rparr>"
  have pq: "projectInfo_query w (b_projectId b) \<noteq> []"
    using ok by (rule submit_created_preconditions)
  have tq: "technicianInfo_query w (userId usr) \<noteq> []"
    using ok by (rule submit_created_preconditions)
  have n: "n = next_application_id w"
    using ok by (rule submit_created_preconditions)
  have N: "notifications (snd (submitApplication svc usr b w)) =
     notifications (snd (createNewApplicationNotification svc
        (pi_company_id (hd (projectInfo_query w (b_projectId b)))) (b_projectId b)
        (pi_title (hd (projectInfo_query w (b_projectId b))))
        (ti_full_name (hd (technicianInfo_query w (userId usr))))
        (snd (createJobApplicationNotification svc (userId usr) (b_projectId b)
           (pi_title (hd (projectInfo_query w (b_projectId b))))
           (snd (insert_application usr b w))))))"
    by (simp add: submit_created_world [OF ok] Let_def sendJobApplicationEmail_frame
        sendApplicationConfirmationEmail_frame)
  have T: "\<And>s. fst (submitApplication s usr b w) = apply_created n \<Longrightarrow>
     transport_calls (snd (submitApplication s usr b w)) = transport_calls w @
       (if isEmailConfigured s then
          [confirmation_mail s (ti_email (hd (technicianInfo_query w (userId usr))))
             (ti_full_name (hd (technicianInfo_query w (userId usr))))
             (pi_title (hd (projectInfo_query w (b_projectId b)))),
           job_application_mail s
             \<lparr> technicianName = ti_full_name (hd (technicianInfo_query w (userId usr))),
               technicianEmail = ti_email (hd (technicianInfo_query w (userId usr))),
               projectTitle = pi_title (hd (projectInfo_query w (b_projectId b))),
               companyName = pi_company_name (hd (projectInfo_query w (b_projectId b))),
               coverLetter = b_coverLetter b,
               proposedRate = b_proposedRate b,
               cvFilePath = cv_file_path s (hd (technicianInfo_query w (userId usr))) \<rparr>]
        else [])"
    by (simp add: submit_created_world Let_def send_transport_calls notification_constructors
        createNotification_frame insert_application_frame)
  have ok0: "fst (submitApplication ?svc0 usr b w) = apply_created n"
    using ok submit_response_independent [of ?svc0 usr b w svc] by simp
  have nc: "\<not> isEmailConfigured ?svc0"
    by (simp add: isEmailConfigured_def validateEmailConfig_iff env_missing_def)
  from T [OF ok0] nc have d: "transport_calls (snd (submitApplication ?svc0 usr b w)) = transport_calls w"
    by simp
  show ?thesis
    unfolding Let_def
    apply (intro conjI)
          apply (rule n)
         apply (simp add: N createNewApplicationNotification_def
            createJobApplicationNotification_def two_notifications insert_application_frame Let_def
            cong: option.case_cong)
        apply (rule projectInfo_query_project [OF pq])
       apply (rule technicianInfo_query_user [OF tq])
      apply (simp add: T [OF ok] confirmation_mail_def job_application_mail_def
          cong: option.case_cong if_cong)
     apply (rule ok0)
    apply (rule d)
    done
qed

text \<open>
  The sample submission: 201, notifications for users 1 and 2, mail to the technician and
  to the operations mailbox; with the technician's notification rejected, 201 and the
  company's notification alone; without credentials 201 and no mail.
\<close>

theorem submitApplication_fan_out_witness:
  "fst (submitApplication demo_services demo_technician demo_body demo_world) = apply_created 1
 \<and> map n_user_id (notifications (snd (submitApplication demo_services demo_technician demo_body
      demo_world))) = [1, 2]
 \<and> map n_type (notifications (snd (submitApplication demo_services demo_technician demo_body
      demo_world))) = [''job_application'', ''new_application'']
 \<and> map mail_to (transport_calls (snd (submitApplication demo_services demo_technician demo_body
      demo_world))) = [''ana@example.org'', ''hola.trabajatecnico@gmail.com'']
 \<and> fst (submitApplication partial_services demo_technician demo_body demo_world) = apply_created 1
 \<and> map n_user_id (notifications (snd (submitApplication partial_services demo_technician
      demo_body demo_world))) = [2]
 \<and> map n_type (notifications (snd (submitApplication partial_services demo_technician
      demo_body demo_world))) = [''new_application'']
 \<and> fst (submitApplication (demo_services\<lparr>process_env := Map.empty\<rparr>) demo_technician demo_body
      demo_world) = apply_created 1
 \<and> transport_calls (snd (submitApplication (demo_services\<lparr>process_env := Map.empty\<rparr>)
      demo_technician demo_body demo_world)) = []"
proof -
  have ok: "fst (submitApplication demo_services demo_technician demo_body demo_world) = apply_created 1"
    by (rule demo_submit)
  have okp: "fst (submitApplication partial_services demo_technician demo_body demo_world)
      = apply_created 1"
    by (rule demo_submit_partial)
  have e: "transport_calls demo_world = []" "notifications demo_world = []"
    by (simp_all add: demo_defs)
  note t = submitApplication_fan_out [OF ok, unfolded Let_def]
  note tp = submitApplication_fan_out [OF okp, unfolded Let_def]
  note nt = t [THEN conjunct2, THEN conjunct1]
  note ntp = tp [THEN conjunct2, THEN conjunct1]
  note mt = t [THEN conjunct2, THEN conjunct2, THEN conjunct2, THEN conjunct2, THEN conjunct1]
  note ut = t [THEN conjunct2, THEN conjunct2, THEN conjunct2, THEN conjunct2, THEN conjunct2]
  have n1: "map n_user_id (notifications (snd (submitApplication demo_services demo_technician
      demo_body demo_world))) = [1, 2]"
    unfolding nt by (simp add: demo_defs query_defs)
  have n2: "map n_type (notifications (snd (submitApplication demo_services demo_technician
      demo_body demo_world))) = [''job_application'', ''new_application'']"
    unfolding nt by (simp add: demo_defs query_defs)
  have n3: "map n_user_id (notifications (snd (submitApplication partial_services demo_technician
      demo_body demo_world))) = [2]"
    unfolding ntp by (simp add: partial_services_def demo_defs query_defs)
  have n4: "map n_type (notifications (snd (submitApplication partial_services demo_technician
      demo_body demo_world))) = [''new_application'']"
    unfolding ntp by (simp add: partial_services_def demo_defs query_defs)
  have m1: "map mail_to (transport_calls (snd (submitApplication demo_services demo_technician
      demo_body demo_world))) = [''ana@example.org'', ''hola.trabajatecnico@gmail.com'']"
    unfolding mt by (simp add: demo_defs query_defs service_defs)
  from ut have u1: "fst (submitApplication (demo_services\<lparr>process_env := Map.empty\<rparr>)
        demo_technician demo_body demo_world) = apply_created 1"
    by (rule conjunct1)
  from ut have u2: "transport_calls (snd (submitApplication (demo_services\<lparr>process_env := Map.empty\<rparr>)
        demo_technician demo_body demo_world)) = []"
    by (simp only: e)
  show ?thesis
    by (intro conjI ok n1 n2 m1 okp n3 n4 u1 u2)
qed

text \<open>
  C2 as stated (every successful call creates exactly two notification rows) fails when
  the storage rejects the notification INSERTs: \<open>createNotification\<close> catches the
  error, the call is answered 201, and no notification row exists.
\<close>

theorem submitApplication_two_rows_counterexample:
  "fst (submitApplication failing_services demo_technician demo_body demo_world) = apply_created 1
 \<and> notifications demo_world = []
 \<and> notifications (snd (submitApplication failing_services demo_technician demo_body demo_world)) = []"
  by (simp add: submitApplication_def demo_defs query_defs service_defs Let_def split_beta)

section \<open>C3: a failed eligibility check writes nothing\<close>

text \<open>
  C3. When any of the four eligibility checks of \<open>submitApplication\<close> fails (wrong
  role, no CV, no open project, duplicate application), the response is one of the four
  error responses and the world after the call is the world before it: no application
  row, no notification row, no message handed to the mail transport.
\<close>

theorem submitApplication_failure_no_writes:
  assumes "userType usr \<noteq> ''technician'' \<or> \<not> profile_has_cv w (userId usr)
      \<or> \<not> (\<exists>p \<in> set (projects w). p_id p = b_projectId b \<and> p_status p = ''open'')
      \<or> (\<exists>a \<in> set (project_applications w).
             pa_project_id a = b_projectId b \<and> pa_technician_id a = userId usr)"
  shows "snd (submitApplication svc usr b w) = w
       \<and> fst (submitApplication svc usr b w)
           \<in> {apply_forbidden, apply_cv_required, apply_project_not_found, apply_already_applied}"
  using assms
  by (auto simp: submitApplication_def profile_has_cv_iff open_project_query_empty
        existingApplication_query_nonempty Let_def simp del: length_greater_0_conv)

text \<open>A company applying, and a technician applying twice, on the sample deployment.\<close>

theorem submitApplication_failure_no_writes_witness:
  "snd (submitApplication demo_services demo_company demo_body demo_world) = demo_world
 \<and> fst (submitApplication demo_services demo_company demo_body demo_world)
      \<in> {apply_forbidden, apply_cv_required, apply_project_not_found, apply_already_applied}
 \<and> snd (submitApplication demo_services demo_technician demo_body (demo_applied ''pending''))
      = demo_applied ''pending''"
proof -
  have h1: "userType demo_company \<noteq> ''technician''"
    by (simp add: demo_defs)
  have h2: "\<exists>a \<in> set (project_applications (demo_applied ''pending'')).
             pa_project_id a = b_projectId demo_body \<and> pa_technician_id a = userId demo_technician"
    by (simp add: demo_defs)
  from h1 submitApplication_failure_no_writes [of demo_company demo_world demo_body demo_services]
  have a: "snd (submitApplication demo_services demo_company demo_body demo_world) = demo_world
 \<and> fst (submitApplication demo_services demo_company demo_body demo_world)
      \<in> {apply_forbidden, apply_cv_required, apply_project_not_found, apply_already_applied}"
    by blast
  from h2 submitApplication_failure_no_writes [of demo_technician "demo_applied ''pending''" demo_body demo_services]
  have b: "snd (submitApplication demo_services demo_technician demo_body (demo_applied ''pending''))
      = demo_applied ''pending''"
    by blast
  from a b show ?thesis by blast
qed

section \<open>C4: failures after the primary write\<close>

text \<open>
  C4. The response of a submission and the applications table it leaves are the same
  under any two behaviours \<open>svc\<close>, \<open>svc'\<close> of the notification storage and
  of the mailer. In particular a submission answered 201 under one behaviour (for instance
  when both succeed) is answered 201 with the same application id under every other, and
  the applications table is the one the INSERT left. Likewise for a status update: the
  response and the applications table do not depend on the behaviour, an update answered
  200 is answered 200 under every other, and the applications table is the one the
  UPDATE left.
\<close>

theorem side_effect_failures_swallowed:
  "fst (submitApplication svc' usr b w) = fst (submitApplication svc usr b w)
 \<and> project_applications (snd (submitApplication svc' usr b w))
      = project_applications (snd (submitApplication svc usr b w))
 \<and> (fst (submitApplication svc usr b w) = apply_created n \<longrightarrow>
      fst (submitApplication svc' usr b w) = apply_created n
    \<and> project_applications (snd (submitApplication svc' usr b w))
        = project_applications (snd (insert_application usr b w)))
 \<and> fst (updateStatus svc' usr aid st w) = fst (updateStatus svc usr aid st w)
 \<and> project_applications (snd (updateStatus svc' usr aid st w))
      = project_applications (snd (updateStatus svc usr aid st w))
 \<and> (fst (updateStatus svc usr aid st w) = status_updated st \<longrightarrow>
      fst (updateStatus svc' usr aid st w) = status_updated st
    \<and> project_applications (snd (updateStatus svc' usr aid st w))
        = project_applications (update_application_status aid st w))"
proof (intro conjI impI)
  show r1: "fst (submitApplication svc' usr b w) = fst (submitApplication svc usr b w)"
    by (rule submit_response_independent)
  show "project_applications (snd (submitApplication svc' usr b w))
      = project_applications (snd (submitApplication svc usr b w))"
    by (rule submit_applications_independent)
  show r2: "fst (updateStatus svc' usr aid st w) = fst (updateStatus svc usr aid st w)"
    by (rule update_status_response_independent)
  show "project_applications (snd (updateStatus svc' usr aid st w))
      = project_applications (snd (updateStatus svc usr aid st w))"
    by (rule update_status_applications_independent)
  {
    assume ok: "fst (submitApplication svc usr b w) = apply_created n"
    with r1 show a: "fst (submitApplication svc' usr b w) = apply_created n"
      by simp
    show "project_applications (snd (submitApplication svc' usr b w))
          = project_applications (snd (insert_application usr b w))"
      using a by (rule submit_created_applications)
  }
  {
    assume ok: "fst (updateStatus svc usr aid st w) = status_updated st"
    with r2 show a: "fst (updateStatus svc' usr aid st w) = status_updated st"
      by simp
    show "project_applications (snd (updateStatus svc' usr aid st w))
          = project_applications (update_application_status aid st w)"
      using a by (rule updateStatus_applications)
  }
qed

text \<open>
  The sample submission and a status update, with every notification INSERT rejected and
  every mail refused: the same 201 and 200, the same application rows.
\<close>

theorem side_effect_failures_swallowed_witness:
  "fst (submitApplication demo_services demo_technician demo_body demo_world) = apply_created 1
 \<and> fst (submitApplication failing_services demo_technician demo_body demo_world) = apply_created 1
 \<and> project_applications (snd (submitApplication failing_services demo_technician demo_body demo_world))
      = [demo_application ''pending'']
 \<and> fst (updateStatus demo_services demo_company 1 ''accepted'' (demo_applied ''pending''))
      = status_updated ''accepted''
 \<and> fst (updateStatus failing_services demo_company 1 ''accepted'' (demo_applied ''pending''))
      = status_updated ''accepted''
 \<and> project_applications (snd (updateStatus failing_services demo_company 1 ''accepted''
        (demo_applied ''pending''))) = [demo_application ''accepted'']"
proof -
  have s: "fst (submitApplication demo_services demo_technician demo_body demo_world) = apply_created 1"
    by (rule demo_submit)
  have u: "fst (updateStatus demo_services demo_company 1 ''accepted'' (demo_applied ''pending''))
      = status_updated ''accepted''"
    by (simp add: updateStatus_def demo_defs query_defs Let_def split_beta)
  note t1 = side_effect_failures_swallowed [where svc = demo_services and svc' = failing_services
      and usr = demo_technician and b = demo_body and w = demo_world and n = 1]
  note t2 = side_effect_failures_swallowed [where svc = demo_services and svc' = failing_services
      and usr = demo_company and w = "demo_applied ''pending''" and aid = 1 and st = "''accepted''"]
  note i1 = t1 [THEN conjunct2, THEN conjunct2, THEN conjunct1, rule_format, OF s]
  note i2 = t2 [THEN conjunct2, THEN conjunct2, THEN conjunct2, THEN conjunct2, THEN conjunct2,
                rule_format, OF u]
  from i1 have a: "fst (submitApplication failing_services demo_technician demo_body demo_world)
        = apply_created 1
      \<and> project_applications (snd (submitApplication failing_services demo_technician demo_body
            demo_world)) = [demo_application ''pending'']"
    by (simp only: demo_submit_applications)
  from i2 have b: "fst (updateStatus failing_services demo_company 1 ''accepted''
          (demo_applied ''pending'')) = status_updated ''accepted''
      \<and> project_applications (snd (updateStatus failing_services demo_company 1 ''accepted''
            (demo_applied ''pending''))) = [demo_application ''accepted'']"
    by (simp only: demo_update)
  from s u a b show ?thesis by blast
qed

section \<open>C5: withdrawing an application\<close>

text \<open>
  C5. A technician withdrawing an own application whose status is not \<open>pending\<close>
  gets 400 (InvalidState) and the world is unchanged. For a pending application the
  expected outcome (success, status \<open>withdrawn\<close>, one notification to the
  technician) is not what the handler does: it runs the UPDATE and then evaluates
  \<open>createApplicationStatusNotification\<close>, a name bound only inside the status
  handler, so the call ends in the 500 response with the status already
  \<open>withdrawn\<close> and no notification written.
\<close>

theorem withdraw_pending_internal_error:
  assumes "withdraw_query w aid (userId usr) = (pa, p) # rest"
    and "userType usr = ''technician''"
  shows "(pa_status pa = ''pending'' \<longrightarrow>
            withdraw svc usr aid w
              = (withdraw_internal_error, update_application_status aid ''withdrawn'' w))
       \<and> (pa_status pa \<noteq> ''pending'' \<longrightarrow> withdraw svc usr aid w = (withdraw_not_pending, w))"
  using assms by (simp add: withdraw_def withdraw_bindings_def module_bindings_def)

text \<open>Technician 1 withdrawing application 1 when it is pending, and when it is accepted.\<close>

theorem withdraw_pending_internal_error_witness:
  "withdraw demo_services demo_technician 1 (demo_applied ''pending'')
     = (withdraw_internal_error, update_application_status 1 ''withdrawn'' (demo_applied ''pending''))
 \<and> fst withdraw_internal_error = 500
 \<and> project_applications (update_application_status 1 ''withdrawn'' (demo_applied ''pending''))
     = [demo_application ''withdrawn'']
 \<and> notifications (update_application_status 1 ''withdrawn'' (demo_applied ''pending'')) = []
 \<and> withdraw demo_services demo_technician 1 (demo_applied ''accepted'')
     = (withdraw_not_pending, demo_applied ''accepted'')"
proof -
  have q: "\<And>st. withdraw_query (demo_applied st) 1 (userId demo_technician)
      = (demo_application st, demo_project) # []"
    by (simp add: demo_defs query_defs)
  have t: "userType demo_technician = ''technician''"
    by (simp add: demo_technician_def)
  have p: "pa_status (demo_application ''pending'') = ''pending''"
    "pa_status (demo_application ''accepted'') \<noteq> ''pending''"
    by (simp_all add: demo_application_def)
  have n: "notifications (update_application_status 1 ''withdrawn'' (demo_applied ''pending'')) = []"
    by (simp add: demo_defs update_application_status_def)
  have c: "fst withdraw_internal_error = 500"
    by (simp add: withdraw_internal_error_def)
  from withdraw_pending_internal_error [OF q t, of "''pending''" demo_services] p(1)
  have a: "withdraw demo_services demo_technician 1 (demo_applied ''pending'')
     = (withdraw_internal_error, update_application_status 1 ''withdrawn'' (demo_applied ''pending''))"
    by blast
  from withdraw_pending_internal_error [OF q t, of "''accepted''" demo_services] p(2)
  have b: "withdraw demo_services demo_technician 1 (demo_applied ''accepted'')
     = (withdraw_not_pending, demo_applied ''accepted'')"
    by blast
  from a b c n demo_update [of "''withdrawn''" "''pending''"] show ?thesis by blast
qed

section \<open>C6: status updates by anyone but the owning company\<close>

text \<open>
  C6. When the application exists (the handler's lookup returns a row) and the requester
  is not of type \<open>company\<close> or is not the company of the application's project,
  \<open>updateStatus\<close> answers 403 (Forbidden) and the world is unchanged: the
  application keeps its status and every other field, and no notification is written.
  The same holds for the route whenever the requested status passes validation.
\<close>

theorem updateStatus_forbidden_unchanged:
  assumes "application_status_query w aid = (pa, p, u) # rest"
    and "userType usr \<noteq> ''company'' \<or> p_company_id p \<noteq> userId usr"
  shows "updateStatus svc usr aid st w = (status_forbidden, w)
       \<and> (b_status b \<in> set [''pending'', ''accepted'', ''rejected'', ''withdrawn''] \<longrightarrow>
            put_application_status svc usr aid b w = (status_forbidden, w))"
  using assms
  by (auto simp: updateStatus_def put_application_status_def status_validation_errors_def)

text \<open>Another company and the technician asking to accept application 1.\<close>

theorem updateStatus_forbidden_unchanged_witness:
  "updateStatus demo_services other_company 1 ''accepted'' (demo_applied ''pending'')
     = (status_forbidden, demo_applied ''pending'')
 \<and> updateStatus demo_services demo_technician 1 ''accepted'' (demo_applied ''pending'')
     = (status_forbidden, demo_applied ''pending'')
 \<and> put_application_status demo_services other_company 1
       \<lparr>b_status = ''rejected'', b_message = None\<rparr> (demo_applied ''pending'')
     = (status_forbidden, demo_applied ''pending'')"
proof -
  have h1: "userType other_company \<noteq> ''company''
      \<or> p_company_id demo_project \<noteq> userId other_company"
    by (simp add: other_company_def demo_project_def)
  have h2: "userType demo_technician \<noteq> ''company''
      \<or> p_company_id demo_project \<noteq> userId demo_technician"
    by (simp add: demo_technician_def)
  have v: "b_status \<lparr>b_status = ''rejected'', b_message = None\<rparr>
      \<in> set [''pending'', ''accepted'', ''rejected'', ''withdrawn'']"
    by simp
  note q = demo_status_query [of "''pending''"]
  from updateStatus_forbidden_unchanged [OF q h1, of demo_services "''accepted''" "\<lparr>b_status = ''rejected'', b_message = None\<rparr>"] v
    updateStatus_forbidden_unchanged [OF q h2, of demo_services "''accepted''"]
  show ?thesis by blast
qed

section \<open>C7: the accepted status values\<close>

text \<open>
  C7, as the code has it. The status route accepts the four values \<open>pending\<close>,
  \<open>accepted\<close>, \<open>rejected\<close> and \<open>withdrawn\<close>: every request whose status
  is none of them is answered 400 (validation error) with the world unchanged, and every
  request whose status is one of them passes validation and is handled by
  \<open>updateStatus\<close>.
\<close>

theorem put_status_validation:
  "(b_status b \<notin> set [''pending'', ''accepted'', ''rejected'', ''withdrawn''] \<longrightarrow>
      put_application_status svc usr aid b w
        = (invalid_data [''Estado inv'' @ a_acute @ ''lido''], w))
 \<and> (b_status b \<in> set [''pending'', ''accepted'', ''rejected'', ''withdrawn''] \<longrightarrow>
      put_application_status svc usr aid b w = updateStatus svc usr aid (b_status b) w)"
  by (simp add: put_application_status_def status_validation_errors_def)

text \<open>The status \<open>approved\<close> is refused; the status \<open>withdrawn\<close> is passed on.\<close>

theorem put_status_validation_witness:
  "put_application_status demo_services demo_company 1
       \<lparr>b_status = ''approved'', b_message = None\<rparr> (demo_applied ''pending'')
     = (invalid_data [''Estado inv'' @ a_acute @ ''lido''], demo_applied ''pending'')
 \<and> put_application_status demo_services demo_company 1
       \<lparr>b_status = ''withdrawn'', b_message = None\<rparr> (demo_applied ''pending'')
     = updateStatus demo_services demo_company 1 ''withdrawn'' (demo_applied ''pending'')"
proof -
  have h1: "b_status \<lparr>b_status = ''approved'', b_message = None\<rparr>
      \<notin> set [''pending'', ''accepted'', ''rejected'', ''withdrawn'']"
    by simp
  have h2: "b_status \<lparr>b_status = ''withdrawn'', b_message = None\<rparr>
      \<in> set [''pending'', ''accepted'', ''rejected'', ''withdrawn'']"
    by simp
  have e: "b_status \<lparr>b_status = ''withdrawn'', b_message = None\<rparr> = ''withdrawn''"
    by simp
  from put_status_validation [of "\<lparr>b_status = ''approved'', b_message = None\<rparr>" demo_services demo_company 1
            "demo_applied ''pending''"] h1
  have a: "put_application_status demo_services demo_company 1
       \<lparr>b_status = ''approved'', b_message = None\<rparr> (demo_applied ''pending'')
     = (invalid_data [''Estado inv'' @ a_acute @ ''lido''], demo_applied ''pending'')"
    by blast
  from put_status_validation [of "\<lparr>b_status = ''withdrawn'', b_message = None\<rparr>" demo_services demo_company 1
            "demo_applied ''pending''"] h2
  have b: "put_application_status demo_services demo_company 1
       \<lparr>b_status = ''withdrawn'', b_message = None\<rparr> (demo_applied ''pending'')
     = updateStatus demo_services demo_company 1
         (b_status \<lparr>b_status = ''withdrawn'', b_message = None\<rparr>) (demo_applied ''pending'')"
    by blast
  from a b e show ?thesis by (simp only:)
qed

text \<open>
  C7 as stated (only \<open>accepted\<close> and \<open>rejected\<close> are accepted) fails for
  \<open>pending\<close>: the owning company sets the accepted application 1 back to
  \<open>pending\<close> and is answered 200.
\<close>

theorem put_status_accepts_pending_counterexample:
  "b_status \<lparr>b_status = ''pending'', b_message = None\<rparr> \<notin> {''accepted'', ''rejected''}
 \<and> fst (put_application_status demo_services demo_company 1
           \<lparr>b_status = ''pending'', b_message = None\<rparr> (demo_applied ''accepted''))
     = status_updated ''pending''
 \<and> project_applications (demo_applied ''accepted'') = [demo_application ''accepted'']
 \<and> project_applications (snd (put_application_status demo_services demo_company 1
           \<lparr>b_status = ''pending'', b_message = None\<rparr> (demo_applied ''accepted'')))
     = [demo_application ''pending'']"
  by (simp add: put_application_status_def status_validation_errors_def updateStatus_def
      demo_defs query_defs service_defs Let_def split_beta)

section \<open>C8: status updates by the owning company\<close>

text \<open>
  C8. When the owning company updates the status of an existing application, whatever
  its current status: the answer is 200 with the new status; every application row with
  this id now has the new status and nothing else changed in the table; the notification
  writer is called exactly once, for the application's technician, with the title and
  message that the new status selects (the call adds its row unless the storage rejects
  the INSERT); and nothing is handed to the mail transport. Title and message are those
  of the accepted, the rejected and the withdrawn variant, and the generic ones for any
  other status, each message naming the project's title.
\<close>

theorem updateStatus_overwrites_any_status:
  assumes "application_status_query w aid = (pa, p, u) # rest"
    and "userType usr = ''company''" and "p_company_id p = userId usr"
  shows "fst (updateStatus svc usr aid st w) = status_updated st
       \<and> project_applications (snd (updateStatus svc usr aid st w))
           = map (\<lambda>a. if pa_id a = aid then a\<lparr>pa_status := st\<rparr> else a) (project_applications w)
       \<and> (\<forall>a \<in> set (project_applications (snd (updateStatus svc usr aid st w))).
             pa_id a = aid \<longrightarrow> pa_status a = st)
       \<and> notifications (snd (updateStatus svc usr aid st w))
           = notifications w @
             (let row = \<lparr> n_id = next_notification_id w, n_user_id = pa_technician_id pa,
                           n_type = ''application_status'',
                           n_title = fst (status_notification_text (p_title p) st),
                           n_message = snd (status_notification_text (p_title p) st),
                           n_related_id = Some (pa_project_id pa), n_is_read = False \<rparr>
              in case notification_insert_error svc row of None \<Rightarrow> [row] | Some err \<Rightarrow> [])
       \<and> transport_calls (snd (updateStatus svc usr aid st w)) = transport_calls w
       \<and> status_notification_text (p_title p) ''accepted''
           = (inverted_exclamation @ ''Aplicaci'' @ o_acute @ ''n Aceptada!'',
              ''Tu aplicaci'' @ o_acute @ ''n para el proyecto '' @ double_quote @ p_title p
                @ double_quote @ '' ha sido aceptada. '' @ inverted_exclamation @ ''Felicidades!'')
       \<and> status_notification_text (p_title p) ''rejected''
           = (''Aplicaci'' @ o_acute @ ''n Rechazada'',
              ''Tu aplicaci'' @ o_acute @ ''n para el proyecto '' @ double_quote @ p_title p
                @ double_quote @ '' no ha sido seleccionada en esta ocasi'' @ o_acute @ ''n.'')
       \<and> status_notification_text (p_title p) ''withdrawn''
           = (''Aplicaci'' @ o_acute @ ''n Retirada'',
              ''Has retirado tu aplicaci'' @ o_acute @ ''n para el proyecto '' @ double_quote
                @ p_title p @ double_quote @ ''.'')
       \<and> (st \<notin> set [''accepted'', ''rejected'', ''withdrawn''] \<longrightarrow>
            status_notification_text (p_title p) st
              = (''Estado de Aplicaci'' @ o_acute @ ''n Actualizado'',
                 ''El estado de tu aplicaci'' @ o_acute @ ''n para el proyecto '' @ double_quote
                   @ p_title p @ double_quote @ '' ha sido actualizado.''))"
proof -
  have r: "fst (updateStatus svc usr aid st w) = status_updated st"
    using assms by (simp add: updateStatus_def Let_def split_beta)
  have w': "snd (updateStatus svc usr aid st w)
      = snd (createApplicationStatusNotification svc (pa_technician_id pa) (pa_project_id pa)
               (p_title p) st (update_application_status aid st w))"
    using assms by (simp add: updateStatus_def Let_def split_beta)
  have apps: "project_applications (snd (updateStatus svc usr aid st w))
           = map (\<lambda>a. if pa_id a = aid then a\<lparr>pa_status := st\<rparr> else a) (project_applications w)"
    by (simp add: w' createApplicationStatusNotification_def createNotification_frame
        update_application_status_def)
  have al: "\<forall>a \<in> set (project_applications (snd (updateStatus svc usr aid st w))).
             pa_id a = aid \<longrightarrow> pa_status a = st"
    unfolding apps by (rule status_overwritten)
  have n: "notifications (snd (updateStatus svc usr aid st w))
           = notifications w @
             (let row = \<lparr> n_id = next_notification_id w, n_user_id = pa_technician_id pa,
                           n_type = ''application_status'',
                           n_title = fst (status_notification_text (p_title p) st),
                           n_message = snd (status_notification_text (p_title p) st),
                           n_related_id = Some (pa_project_id pa), n_is_read = False \<rparr>
              in case notification_insert_error svc row of None \<Rightarrow> [row] | Some err \<Rightarrow> [])"
    by (simp add: w' createApplicationStatusNotification_def createNotification_notifications
        update_application_status_def)
  have t: "transport_calls (snd (updateStatus svc usr aid st w)) = transport_calls w"
    by (simp add: w' createApplicationStatusNotification_def createNotification_frame
        update_application_status_def)
  have texts: "status_notification_text (p_title p) ''accepted''
           = (inverted_exclamation @ ''Aplicaci'' @ o_acute @ ''n Aceptada!'',
              ''Tu aplicaci'' @ o_acute @ ''n para el proyecto '' @ double_quote @ p_title p
                @ double_quote @ '' ha sido aceptada. '' @ inverted_exclamation @ ''Felicidades!'')"
    "status_notification_text (p_title p) ''rejected''
           = (''Aplicaci'' @ o_acute @ ''n Rechazada'',
              ''Tu aplicaci'' @ o_acute @ ''n para el proyecto '' @ double_quote @ p_title p
                @ double_quote @ '' no ha sido seleccionada en esta ocasi'' @ o_acute @ ''n.'')"
    "status_notification_text (p_title p) ''withdrawn''
           = (''Aplicaci'' @ o_acute @ ''n Retirada'',
              ''Has retirado tu aplicaci'' @ o_acute @ ''n para el proyecto '' @ double_quote
                @ p_title p @ double_quote @ ''.'')"
    "st \<notin> set [''accepted'', ''rejected'', ''withdrawn''] \<longrightarrow>
            status_notification_text (p_title p) st
              = (''Estado de Aplicaci'' @ o_acute @ ''n Actualizado'',
                 ''El estado de tu aplicaci'' @ o_acute @ ''n para el proyecto '' @ double_quote
                   @ p_title p @ double_quote @ '' ha sido actualizado.'')"
    by (simp_all add: status_notification_text_def)
  show ?thesis by (intro conjI r apps al n t texts)
qed

text \<open>
  The owning company accepts the rejected application 1: one notification to technician 1
  with the title and the message of the accepted variant.
\<close>

theorem updateStatus_overwrites_any_status_witness:
  "fst (updateStatus demo_services demo_company 1 ''accepted'' (demo_applied ''rejected''))
     = status_updated ''accepted''
 \<and> project_applications (snd (updateStatus demo_services demo_company 1 ''accepted''
        (demo_applied ''rejected''))) = [demo_application ''accepted'']
 \<and> map n_user_id (notifications (snd (updateStatus demo_services demo_company 1 ''accepted''
        (demo_applied ''rejected'')))) = [1]
 \<and> map n_title (notifications (snd (updateStatus demo_services demo_company 1 ''accepted''
        (demo_applied ''rejected'')))) = [inverted_exclamation @ ''Aplicaci'' @ o_acute @ ''n Aceptada!'']
 \<and> map n_message (notifications (snd (updateStatus demo_services demo_company 1 ''accepted''
        (demo_applied ''rejected''))))
     = [''Tu aplicaci'' @ o_acute @ ''n para el proyecto '' @ double_quote @ ''HVAC''
          @ double_quote @ '' ha sido aceptada. '' @ inverted_exclamation @ ''Felicidades!'']
 \<and> transport_calls (snd (updateStatus demo_services demo_company 1 ''accepted''
        (demo_applied ''rejected''))) = []"
proof -
  note q = demo_status_query [of "''rejected''"]
  have h1: "userType demo_company = ''company''"
    by (simp add: demo_company_def)
  have h2: "p_company_id demo_project = userId demo_company"
    by (simp add: demo_company_def demo_project_def)
  note t = updateStatus_overwrites_any_status [OF q h1 h2, of demo_services "''accepted''"]
  from t have r: "fst (updateStatus demo_services demo_company 1 ''accepted'' (demo_applied ''rejected''))
     = status_updated ''accepted''"
    by (rule conjunct1)
  from t have a: "project_applications (snd (updateStatus demo_services demo_company 1 ''accepted''
        (demo_applied ''rejected'')))
      = map (\<lambda>a. if pa_id a = 1 then a\<lparr>pa_status := ''accepted''\<rparr> else a)
          (project_applications (demo_applied ''rejected''))"
    by (rule conjunct2 [THEN conjunct1])
  have a': "map (\<lambda>a. if pa_id a = 1 then a\<lparr>pa_status := ''accepted''\<rparr> else a)
          (project_applications (demo_applied ''rejected'')) = [demo_application ''accepted'']"
    by (simp add: demo_defs)
  from t have n: "notifications (snd (updateStatus demo_services demo_company 1 ''accepted''
        (demo_applied ''rejected'')))
      = notifications (demo_applied ''rejected'') @
             (let row = \<lparr> n_id = next_notification_id (demo_applied ''rejected''),
                           n_user_id = pa_technician_id (demo_application ''rejected''),
                           n_type = ''application_status'',
                           n_title = fst (status_notification_text (p_title demo_project) ''accepted''),
                           n_message = snd (status_notification_text (p_title demo_project) ''accepted''),
                           n_related_id = Some (pa_project_id (demo_application ''rejected'')),
                           n_is_read = False \<rparr>
              in case notification_insert_error demo_services row of
                   None \<Rightarrow> [row] | Some err \<Rightarrow> [])"
    by (rule conjunct2 [THEN conjunct2, THEN conjunct2, THEN conjunct1])
  have n1: "map n_user_id (notifications (snd (updateStatus demo_services demo_company 1 ''accepted''
        (demo_applied ''rejected'')))) = [1]"
    unfolding n by (simp add: demo_defs Let_def)
  have n2: "map n_title (notifications (snd (updateStatus demo_services demo_company 1 ''accepted''
        (demo_applied ''rejected''))))
      = [inverted_exclamation @ ''Aplicaci'' @ o_acute @ ''n Aceptada!'']"
    unfolding n by (simp add: demo_defs Let_def status_notification_text_def)
  note tx = t [THEN conjunct2, THEN conjunct2, THEN conjunct2, THEN conjunct2, THEN conjunct2,
               THEN conjunct1]
  have tx': "snd (status_notification_text ''HVAC'' ''accepted'')
      = ''Tu aplicaci'' @ o_acute @ ''n para el proyecto '' @ double_quote @ ''HVAC''
          @ double_quote @ '' ha sido aceptada. '' @ inverted_exclamation @ ''Felicidades!''"
    using tx by (simp add: demo_project_def)
  have n3: "map n_message (notifications (snd (updateStatus demo_services demo_company 1 ''accepted''
        (demo_applied ''rejected''))))
     = [''Tu aplicaci'' @ o_acute @ ''n para el proyecto '' @ double_quote @ ''HVAC''
          @ double_quote @ '' ha sido aceptada. '' @ inverted_exclamation @ ''Felicidades!'']"
    unfolding n by (simp add: tx' demo_defs Let_def)
  from t have m: "transport_calls (snd (updateStatus demo_services demo_company 1 ''accepted''
        (demo_applied ''rejected''))) = transport_calls (demo_applied ''rejected'')"
    by (rule conjunct2 [THEN conjunct2, THEN conjunct2, THEN conjunct2, THEN conjunct1])
  have m': "transport_calls (demo_applied ''rejected'') = []"
    by (simp add: demo_defs)
  show ?thesis
    by (intro conjI r n1 n2 n3) (simp_all only: a a' m m')
qed

section \<open>C9: who may learn that an application exists\<close>

text \<open>
  C9, as the code has it. \<open>withdraw\<close> answers 404 (NotFound), the world unchanged,
  for every requester of any role when no application with this id has the requester as
  its technician (in particular when no such application exists). A requester who is the
  application's technician but whose type is not \<open>technician\<close> is answered 403
  (Forbidden), the world unchanged.
\<close>

theorem withdraw_not_found_or_forbidden:
  "(\<not> (\<exists>pa \<in> set (project_applications w). pa_id pa = aid \<and> pa_technician_id pa = userId usr)
      \<longrightarrow> withdraw svc usr aid w = (withdraw_not_found, w))
 \<and> (withdraw_query w aid (userId usr) = [] \<longrightarrow> withdraw svc usr aid w = (withdraw_not_found, w))
 \<and> (withdraw_query w aid (userId usr) \<noteq> [] \<and> userType usr \<noteq> ''technician''
      \<longrightarrow> withdraw svc usr aid w = (withdraw_forbidden, w))"
  by (auto simp: withdraw_def withdraw_query_none split: list.splits)

text \<open>
  Company 2 and an unknown id get 404; user 1 with the type \<open>company\<close> gets 403 on
  the own application.
\<close>

theorem withdraw_not_found_or_forbidden_witness:
  "withdraw demo_services demo_company 1 (demo_applied ''pending'')
     = (withdraw_not_found, demo_applied ''pending'')
 \<and> withdraw demo_services demo_technician 7 (demo_applied ''pending'')
     = (withdraw_not_found, demo_applied ''pending'')
 \<and> withdraw demo_services former_technician 1 (demo_applied ''pending'')
     = (withdraw_forbidden, demo_applied ''pending'')"
proof -
  have h1: "\<not> (\<exists>pa \<in> set (project_applications (demo_applied ''pending'')).
               pa_id pa = 1 \<and> pa_technician_id pa = userId demo_company)"
    by (simp add: demo_defs)
  have h2: "withdraw_query (demo_applied ''pending'') 7 (userId demo_technician) = []"
    by (simp add: demo_defs query_defs)
  have h3: "withdraw_query (demo_applied ''pending'') 1 (userId former_technician) \<noteq> []
      \<and> userType former_technician \<noteq> ''technician''"
    by (simp add: former_technician_def demo_defs query_defs)
  from withdraw_not_found_or_forbidden [of "demo_applied ''pending''" 1 demo_company demo_services] h1
  have a: "withdraw demo_services demo_company 1 (demo_applied ''pending'')
     = (withdraw_not_found, demo_applied ''pending'')"
    by blast
  from withdraw_not_found_or_forbidden [of "demo_applied ''pending''" 7 demo_technician demo_services] h2
  have b: "withdraw demo_services demo_technician 7 (demo_applied ''pending'')
     = (withdraw_not_found, demo_applied ''pending'')"
    by blast
  from withdraw_not_found_or_forbidden [of "demo_applied ''pending''" 1 former_technician demo_services] h3
  have c: "withdraw demo_services former_technician 1 (demo_applied ''pending'')
     = (withdraw_forbidden, demo_applied ''pending'')"
    by blast
  from a b c show ?thesis by blast
qed

text \<open>
  C9 as stated (never 403) fails for a requester who is the application's technician and
  whose type is not \<open>technician\<close>: the lookup finds the row and the role check
  answers 403.
\<close>

theorem withdraw_forbidden_counterexample:
  "userType former_technician \<noteq> ''technician''
 \<and> fst (withdraw demo_services former_technician 1 (demo_applied ''pending'')) = withdraw_forbidden
 \<and> fst withdraw_forbidden = 403
 \<and> withdraw_forbidden \<noteq> withdraw_not_found"
  by (simp add: withdraw_def former_technician_def demo_defs query_defs
      withdraw_forbidden_def withdraw_not_found_def)

section \<open>C10: the mailer without credentials\<close>

text \<open>
  C10. When EMAIL_USER or EMAIL_PASS is unset or empty at startup, both send operations
  of the mailer return the value \<open>{success: false, error: 'Email no configurado'}\<close>
  and leave the world as it is: nothing is handed to the transport, and nothing is
  raised.
\<close>

theorem mailer_not_configured:
  assumes "env_missing (process_env svc) ''EMAIL_USER'' \<or> env_missing (process_env svc) ''EMAIL_PASS''"
  shows "sendJobApplicationEmail svc d w = (SendFailure ''Email no configurado'', w)
       \<and> sendApplicationConfirmationEmail svc email name title w
           = (SendFailure ''Email no configurado'', w)"
proof -
  from assms have "\<not> isEmailConfigured svc"
    by (auto simp: isEmailConfigured_def validateEmailConfig_iff)
  then show ?thesis
    by (simp add: sendJobApplicationEmail_def sendApplicationConfirmationEmail_def)
qed

text \<open>The sample deployment with an empty environment.\<close>

theorem mailer_not_configured_witness:
  "env_missing (process_env (demo_services\<lparr>process_env := Map.empty\<rparr>)) ''EMAIL_USER''
   \<and> sendJobApplicationEmail (demo_services\<lparr>process_env := Map.empty\<rparr>) demo_data demo_world
       = (SendFailure ''Email no configurado'', demo_world)
   \<and> sendApplicationConfirmationEmail (demo_services\<lparr>process_env := Map.empty\<rparr>)
         ''ana@example.org'' ''Ana Ruiz'' ''HVAC'' demo_world
       = (SendFailure ''Email no configurado'', demo_world)"
proof -
  have h: "env_missing (process_env (demo_services\<lparr>process_env := Map.empty\<rparr>)) ''EMAIL_USER''"
    by (simp add: env_missing_def)
  then have h': "env_missing (process_env (demo_services\<lparr>process_env := Map.empty\<rparr>)) ''EMAIL_USER''
      \<or> env_missing (process_env (demo_services\<lparr>process_env := Map.empty\<rparr>)) ''EMAIL_PASS''"
    by blast
  show ?thesis
    using h mailer_not_configured [OF h'] by simp
qed

end
